theory Spec2Isabelle
  imports Main
begin

section \<open>JavaScript strings\<close>

text \<open>
  A JavaScript string is modelled as a \<^typ>\<open>string\<close>: one \<^typ>\<open>char\<close> per UTF-16 code unit.
  The model covers the code units below 128 (ASCII): case mapping touches the letters
  \<open>A-Z\<close>/\<open>a-z\<close> only and the white space of \<open>\s\<close> and \<open>trim\<close> is tab, line feed,
  vertical tab, form feed, carriage return and space. Every other code unit is an
  ordinary character that no operation changes.
\<close>

definition isSpace :: "char \<Rightarrow> bool" where
  "isSpace c = (let n = (of_char c :: nat) in (9 \<le> n \<and> n \<le> 13) \<or> n = 32)"

definition toLowerChar :: "char \<Rightarrow> char" where
  "toLowerChar c =
     (let n = (of_char c :: nat) in if 65 \<le> n \<and> n \<le> 90 then char_of (n + 32) else c)"

definition toUpperChar :: "char \<Rightarrow> char" where
  "toUpperChar c =
     (let n = (of_char c :: nat) in if 97 \<le> n \<and> n \<le> 122 then char_of (n - 32) else c)"

text \<open>
  The same three functions on the eight bits of a character, for evaluation: white space is
  9 to 13 and 32, a letter is 1 to 26 above 64 (upper case) or above 96 (lower case).
\<close>

lemma isSpace_code [code]:
  "isSpace (Char b0 b1 b2 b3 b4 b5 b6 b7) =
     (\<not> b7 \<and> \<not> b6 \<and> \<not> b4 \<and>
      ((b5 \<and> \<not> b3 \<and> \<not> b2 \<and> \<not> b1 \<and> \<not> b0)
       \<or> (\<not> b5 \<and> b3 \<and> ((\<not> b2 \<and> (b1 \<or> b0)) \<or> (b2 \<and> \<not> b1)))))"
  by (cases b0; cases b1; cases b2; cases b3; cases b4; cases b5; cases b6; cases b7;
      simp add: isSpace_def)

definition letterBits :: "bool \<Rightarrow> bool \<Rightarrow> bool \<Rightarrow> bool \<Rightarrow> bool \<Rightarrow> bool" where
  "letterBits b0 b1 b2 b3 b4 =
     ((b0 \<or> b1 \<or> b2 \<or> b3 \<or> b4) \<and> \<not> (b4 \<and> b3 \<and> (b2 \<or> (b1 \<and> b0))))"

lemma toLowerChar_code [code]:
  "toLowerChar (Char b0 b1 b2 b3 b4 b5 b6 b7) =
     (if \<not> b7 \<and> b6 \<and> \<not> b5 \<and> letterBits b0 b1 b2 b3 b4
      then Char b0 b1 b2 b3 b4 True b6 b7 else Char b0 b1 b2 b3 b4 b5 b6 b7)"
  by (cases b0; cases b1; cases b2; cases b3; cases b4; cases b5; cases b6; cases b7;
      simp add: toLowerChar_def letterBits_def char_of_def bit_Suc_0_iff)

lemma toUpperChar_code [code]:
  "toUpperChar (Char b0 b1 b2 b3 b4 b5 b6 b7) =
     (if \<not> b7 \<and> b6 \<and> b5 \<and> letterBits b0 b1 b2 b3 b4
      then Char b0 b1 b2 b3 b4 False b6 b7 else Char b0 b1 b2 b3 b4 b5 b6 b7)"
  by (cases b0; cases b1; cases b2; cases b3; cases b4; cases b5; cases b6; cases b7;
      simp add: toUpperChar_def letterBits_def char_of_def bit_Suc_0_iff)

definition toLowerCase :: "string \<Rightarrow> string" where
  "toLowerCase s = map toLowerChar s"

definition toUpperCase :: "string \<Rightarrow> string" where
  "toUpperCase s = map toUpperChar s"

text \<open>\<open>String.prototype.trim\<close>: white space is removed at both ends.\<close>

definition trimStart :: "string \<Rightarrow> string" where
  "trimStart s = dropWhile isSpace s"

definition trimEnd :: "string \<Rightarrow> string" where
  "trimEnd s = rev (dropWhile isSpace (rev s))"

definition trim :: "string \<Rightarrow> string" where
  "trim s = trimEnd (trimStart s)"

section \<open>lib/graph-utils.ts\<close>

record Entity =
  ent_name :: string
  ent_type :: string

record Relation =
  rel_source :: string
  rel_relation :: string
  rel_target :: string

text \<open>\<open>.replace(/\s+/g, ' ')\<close>: every maximal run of white space becomes one space.\<close>

function collapseWhitespace :: "string \<Rightarrow> string" where
  "collapseWhitespace [] = []"
| "collapseWhitespace (c # cs) =
     (if isSpace c then CHR '' '' # collapseWhitespace (dropWhile isSpace cs)
      else c # collapseWhitespace cs)"
  by pat_completeness auto
termination
  by (relation "measure length") (auto simp: length_dropWhile_le less_Suc_eq_le)

text \<open>\<open>.replace(/[()\[\]]/g, '')\<close>: the four bracket characters are deleted.\<close>

definition isBracket :: "char \<Rightarrow> bool" where
  "isBracket c = (c = CHR ''('' \<or> c = CHR '')'' \<or> c = CHR ''['' \<or> c = CHR '']'')"

definition removeBrackets :: "string \<Rightarrow> string" where
  "removeBrackets s = filter (\<lambda>c. \<not> isBracket c) s"

text \<open>\<open>.replace(/\.$/, '')\<close>: without the \<open>m\<close> flag \<open>$\<close> is the end of the string, so one
  period is deleted when it is the last character.\<close>

definition removeTrailingPeriod :: "string \<Rightarrow> string" where
  "removeTrailingPeriod s = (if s \<noteq> [] \<and> last s = CHR ''.'' then butlast s else s)"

definition normalizeEntityName :: "string \<Rightarrow> string" where
  "normalizeEntityName name =
     removeTrailingPeriod (removeBrackets (collapseWhitespace (trim (toLowerCase name))))"





text \<open>
  \<open>filterRelationsByEntities\<close>: the \<open>Set\<close> of normalized names is the list of them, \<open>has\<close> is
  membership. An empty string is the only falsy value of a field of type \<open>string\<close>.
\<close>

definition filterRelationsByEntities :: "Relation list \<Rightarrow> Entity list \<Rightarrow> Relation list" where
  "filterRelationsByEntities relations validEntities =
     (let entityNames = map (\<lambda>e. normalizeEntityName (ent_name e)) validEntities
      in filter (\<lambda>rel.
           if rel_source rel = [] \<or> rel_relation rel = [] \<or> rel_target rel = [] then False
           else (let sourceNorm = normalizeEntityName (rel_source rel);
                     targetNorm = normalizeEntityName (rel_target rel)
                 in sourceNorm \<in> set entityNames \<and> targetNorm \<in> set entityNames))
         relations)"





section \<open>repositories/search.repository.ts\<close>

text \<open>
  A thrown \<open>Error\<close> (a rejected promise) is a value: the functions that can throw return
  \<open>error + 'a\<close>.
\<close>

datatype error =
    MissingSupabaseConfiguration
  | VectorSearchFailed string
  | EmbeddingFailed string

record Journal =
  j_id :: string
  j_title :: string
  j_author :: string
  j_year :: string
  j_file_url :: string

record 'n VectorSearchResult =
  vsr_id :: string
  vsr_text :: string
  vsr_journal_id :: string
  vsr_similarity :: 'n
  vsr_journal :: "Journal option"

record GraphSearchResult =
  gsr_id :: string
  gsr_name :: string
  gsr_type :: string

record EntityRef =
  er_id :: string
  er_name :: string
  er_type :: string

record GraphRelation =
  gr_id :: string
  gr_relation :: string
  gr_source :: EntityRef
  gr_target :: EntityRef

text \<open>
  The rows the database service answers with. An embedded entity is \<open>null\<close> (\<open>None\<close>) when
  the row has none or when a filter on the embedded resource excludes it, and its type may
  be \<open>null\<close>.
\<close>

record NestedEntity =
  ne_id :: string
  ne_name :: string
  ne_type :: "string option"

record HerbRelationRow =
  hrr_id :: string
  hrr_relation :: string
  hrr_source :: "GraphSearchResult option"

record RelationRow =
  rr_id :: string
  rr_relation :: string
  rr_source :: "NestedEntity option"
  rr_target :: "NestedEntity option"

record EmbeddingRow =
  emb_id :: string
  emb_journal :: "Journal option"

text \<open>
  The Supabase client is an external collaborator: one field for every query the
  repository sends, from the arguments the code passes to the \<open>{data, error}\<close> it gets back
  (\<open>data\<close> \<open>None\<close> is \<open>null\<close>, \<open>error\<close> \<open>None\<close> is no error). \<open>'v\<close> is the query vector, \<open>'n\<close>
  the type of a similarity.
\<close>

type_synonym 'a response = "'a list option \<times> string option"

record ('v, 'n) Supabase =
  rpc_search_similar_chunks :: "'v \<Rightarrow> int \<Rightarrow> ('n VectorSearchResult) response"
  entities_ilike_eq :: "string \<Rightarrow> string option \<Rightarrow> nat \<Rightarrow> GraphSearchResult response"
  entities_ilike_in :: "string \<Rightarrow> string list \<Rightarrow> nat \<Rightarrow> GraphSearchResult response"
  relations_in_target :: "string list \<Rightarrow> string \<Rightarrow> string list \<Rightarrow> HerbRelationRow response"
  relations_in_source :: "string list \<Rightarrow> RelationRow response"
  embeddings_in_id :: "string list \<Rightarrow> EmbeddingRow response"

text \<open>\<open>getSupabaseClient\<close> throws when the configuration is missing (\<open>None\<close>).\<close>

definition getSupabaseClient :: "('v, 'n) Supabase option \<Rightarrow> error + ('v, 'n) Supabase" where
  "getSupabaseClient env = (case env of None \<Rightarrow> Inl MissingSupabaseConfiguration | Some supabase \<Rightarrow> Inr supabase)"

text \<open>\<open>data || []\<close>\<close>

definition orEmpty :: "'a list option \<Rightarrow> 'a list" where
  "orEmpty data = (case data of None \<Rightarrow> [] | Some rows \<Rightarrow> rows)"

definition vectorSearch ::
  "('v, 'n) Supabase option \<Rightarrow> 'v \<Rightarrow> int \<Rightarrow> error + 'n VectorSearchResult list" where
  "vectorSearch env queryVector topK =
     (case getSupabaseClient env of Inl e \<Rightarrow> Inl e
      | Inr supabase \<Rightarrow>
          (case rpc_search_similar_chunks supabase queryVector topK of
             (data, Some message) \<Rightarrow> Inl (VectorSearchFailed message)
           | (data, None) \<Rightarrow> Inr (orEmpty data)))"

definition findMatchingEntities ::
  "('v, 'n) Supabase option \<Rightarrow> string \<Rightarrow> string \<Rightarrow> error + GraphSearchResult list" where
  "findMatchingEntities env entityName entityType =
     (case getSupabaseClient env of Inl e \<Rightarrow> Inl e
      | Inr supabase \<Rightarrow>
          (case entities_ilike_eq supabase (''%'' @ entityName @ ''%'')
                  (if entityType \<noteq> [] then Some entityType else None) 10 of
             (data, Some message) \<Rightarrow> Inr []
           | (data, None) \<Rightarrow> Inr (orEmpty data)))"

text \<open>
  A \<open>Map\<close> is an association list in insertion order: \<open>set\<close> on a key that is present
  replaces the value where the key stands, \<open>values()\<close> lists the values in that order.
\<close>

fun mapSet :: "('k \<times> 'a) list \<Rightarrow> 'k \<Rightarrow> 'a \<Rightarrow> ('k \<times> 'a) list" where
  "mapSet [] k v = [(k, v)]"
| "mapSet ((k', v') # m) k v = (if k' = k then (k, v) # m else (k', v') # mapSet m k v)"

definition mapValues :: "('k \<times> 'a) list \<Rightarrow> 'a list" where
  "mapValues m = map snd m"

definition findHerbsForCondition ::
  "('v, 'n) Supabase option \<Rightarrow> string \<Rightarrow> error + GraphSearchResult list" where
  "findHerbsForCondition env conditionName =
     (case getSupabaseClient env of Inl e \<Rightarrow> Inl e
      | Inr supabase \<Rightarrow>
          (case fst (entities_ilike_in supabase (''%'' @ conditionName @ ''%'')
                       [''DISEASE'', ''SYMPTOM''] 5) of
             None \<Rightarrow> Inr []
           | Some conditions \<Rightarrow>
               if conditions = [] then Inr []
               else (let conditionIds = map gsr_id conditions in
                     case fst (relations_in_target supabase conditionIds ''PLANT''
                                 [''treats'', ''reduces'', ''alleviates'', ''prevents'', ''cures'']) of
                       None \<Rightarrow> Inr []
                     | Some relations \<Rightarrow>
                         Inr (mapValues (fold (\<lambda>rel plantsMap.
                                case hrr_source rel of None \<Rightarrow> plantsMap
                                | Some source \<Rightarrow> mapSet plantsMap (gsr_id source) source)
                              relations [])))))"

text \<open>\<open>(rel.target.type || "").toUpperCase()\<close>\<close>

definition typeOrEmpty :: "string option \<Rightarrow> string" where
  "typeOrEmpty t = (case t of None \<Rightarrow> [] | Some s \<Rightarrow> s)"

definition getHerbCompoundsAndEffects ::
  "('v, 'n) Supabase option \<Rightarrow> string list \<Rightarrow> error + GraphRelation list" where
  "getHerbCompoundsAndEffects env herbIds =
     (if herbIds = [] then Inr []
      else case getSupabaseClient env of Inl e \<Rightarrow> Inl e
      | Inr supabase \<Rightarrow>
          (case relations_in_source supabase herbIds of
             (data, Some message) \<Rightarrow> Inr []
           | (None, None) \<Rightarrow> Inr []
           | (Some allRelations, None) \<Rightarrow>
               Inr (fold (\<lambda>rel results.
                      case (rr_source rel, rr_target rel) of
                        (Some source, Some target) \<Rightarrow>
                          (let targetType = toUpperCase (typeOrEmpty (ne_type target));
                               sourceType = toUpperCase (typeOrEmpty (ne_type source))
                           in if targetType = ''COMPOUND'' \<or> targetType = ''EFFECT'' \<or> targetType = ''DISEASE''
                              then results @
                                [\<lparr>gr_id = rr_id rel, gr_relation = rr_relation rel,
                                  gr_source = \<lparr>er_id = ne_id source, er_name = ne_name source, er_type = sourceType\<rparr>,
                                  gr_target = \<lparr>er_id = ne_id target, er_name = ne_name target, er_type = targetType\<rparr>\<rparr>]
                              else results)
                      | _ \<Rightarrow> results)
                    allRelations [])))"

definition getJournalsForEmbeddings ::
  "('v, 'n) Supabase option \<Rightarrow> string list \<Rightarrow> error + (string \<times> Journal) list" where
  "getJournalsForEmbeddings env embeddingIds =
     (if embeddingIds = [] then Inr []
      else case getSupabaseClient env of Inl e \<Rightarrow> Inl e
      | Inr supabase \<Rightarrow>
          Inr (fold (\<lambda>emb journalMap.
                 case emb_journal emb of None \<Rightarrow> journalMap
                 | Some journal \<Rightarrow> mapSet journalMap (emb_id emb) journal)
               (orEmpty (fst (embeddings_in_id supabase embeddingIds))) []))"

section \<open>services/query.service.ts\<close>

record QueryEntity =
  qe_name :: string
  qe_type :: string

text \<open>
  The collaborators of \<open>hybridSearch\<close>. \<open>extractQueryEntities\<close> and \<open>generateAnswer\<close> catch
  every failure themselves and always return; the embedding pipeline can throw; the
  Supabase configuration can be missing.
\<close>

record ('v, 'n) Collaborators =
  extractQueryEntities :: "string \<Rightarrow> QueryEntity list"
  embeddingPipeline :: "string \<Rightarrow> error + 'v"
  supabaseEnv :: "('v, 'n) Supabase option"
  generateAnswer ::
    "string \<Rightarrow> 'n VectorSearchResult list \<Rightarrow> GraphSearchResult list \<Rightarrow> GraphRelation list \<Rightarrow> string"

record GraphResults =
  herbs :: "GraphSearchResult list"
  compounds :: "GraphRelation list"
  effects :: "GraphRelation list"
  allRelations :: "GraphRelation list"

record Summary =
  totalChunks :: nat
  totalHerbs :: nat
  totalCompounds :: nat
  totalEffects :: nat

record 'n HybridSearchResult =
  hsr_query :: string
  queryEntities :: "QueryEntity list"
  vectorResults :: "'n VectorSearchResult list"
  graphResults :: GraphResults
  answer :: string
  summary :: Summary

text \<open>Step 3 of \<open>hybridSearch\<close>: the loop over the query entities.\<close>

fun graphSearchLoop ::
  "('v, 'n) Supabase option \<Rightarrow> QueryEntity list \<Rightarrow> GraphSearchResult list \<Rightarrow> GraphSearchResult list
     \<Rightarrow> error + (GraphSearchResult list \<times> GraphSearchResult list)" where
  "graphSearchLoop env [] herbList allMatchedEntities = Inr (herbList, allMatchedEntities)"
| "graphSearchLoop env (entity # rest) herbList allMatchedEntities =
     (case findMatchingEntities env (qe_name entity) (qe_type entity) of Inl e \<Rightarrow> Inl e
      | Inr matches \<Rightarrow>
          if qe_type entity = ''SYMPTOM'' \<or> qe_type entity = ''DISEASE'' then
            (case findHerbsForCondition env (qe_name entity) of Inl e \<Rightarrow> Inl e
             | Inr treatmentHerbs \<Rightarrow>
                 graphSearchLoop env rest (herbList @ treatmentHerbs) (allMatchedEntities @ matches))
          else if qe_type entity = ''PLANT'' then
            (case findMatchingEntities env (qe_name entity) ''PLANT'' of Inl e \<Rightarrow> Inl e
             | Inr plantMatches \<Rightarrow>
                 graphSearchLoop env rest (herbList @ plantMatches) (allMatchedEntities @ matches))
          else graphSearchLoop env rest herbList (allMatchedEntities @ matches))"

text \<open>\<open>Array.from(new Map(herbs.map((h) => [h.id, h])).values())\<close>\<close>

definition uniqueById :: "GraphSearchResult list \<Rightarrow> GraphSearchResult list" where
  "uniqueById hs = mapValues (fold (\<lambda>h m. mapSet m (gsr_id h) h) hs [])"

text \<open>\<open>journalMap.get(result.id)\<close> is \<open>undefined\<close> (\<open>None\<close>) for a key that is absent.\<close>

definition enrich :: "(string \<times> Journal) list \<Rightarrow> 'n VectorSearchResult \<Rightarrow> 'n VectorSearchResult" where
  "enrich journalMap result = result\<lparr>vsr_journal := map_of journalMap (vsr_id result)\<rparr>"

definition hybridSearch ::
  "('v, 'n) Collaborators \<Rightarrow> string \<Rightarrow> int \<Rightarrow> error + 'n HybridSearchResult" where
  "hybridSearch c query topK =
     (let qEntities = extractQueryEntities c query in
      case embeddingPipeline c query of Inl e \<Rightarrow> Inl e
      | Inr queryVector \<Rightarrow>
      case vectorSearch (supabaseEnv c) queryVector topK of Inl e \<Rightarrow> Inl e
      | Inr found \<Rightarrow>
      case (if length found > 0
            then (case getJournalsForEmbeddings (supabaseEnv c) (map vsr_id found) of
                    Inl e \<Rightarrow> Inl e
                  | Inr journalMap \<Rightarrow> Inr (map (enrich journalMap) found))
            else Inr found) of Inl e \<Rightarrow> Inl e
      | Inr vResults \<Rightarrow>
      case graphSearchLoop (supabaseEnv c) qEntities [] [] of Inl e \<Rightarrow> Inl e
      | Inr (herbList, allMatchedEntities) \<Rightarrow>
      let uniqueHerbs = uniqueById herbList;
          herbIds = map gsr_id uniqueHerbs in
      case getHerbCompoundsAndEffects (supabaseEnv c) herbIds of Inl e \<Rightarrow> Inl e
      | Inr relations \<Rightarrow>
      let compoundList = filter (\<lambda>r. er_type (gr_target r) = ''COMPOUND'') relations;
          effectList = filter (\<lambda>r. er_type (gr_target r) = ''EFFECT'') relations;
          answerText = generateAnswer c query vResults uniqueHerbs relations
      in Inr \<lparr>hsr_query = query,
              queryEntities = qEntities,
              vectorResults = vResults,
              graphResults = \<lparr>herbs = uniqueHerbs, compounds = compoundList,
                               effects = effectList, allRelations = relations\<rparr>,
              answer = answerText,
              summary = \<lparr>totalChunks = length vResults, totalHerbs = length uniqueHerbs,
                          totalCompounds = length compoundList, totalEffects = length effectList\<rparr>\<rparr>)"

subsection \<open>A table-backed database collaborator\<close>

text \<open>
  The stub that stands for the persisted graph in the end-to-end scenario: the
  \<open>entities\<close> table and the \<open>relations\<close> table as lists of rows, answered in table order.
  \<open>ilike\<close> is SQL's case-insensitive \<open>LIKE\<close>: \<open>%\<close> stands for any substring, \<open>_\<close> for any one
  character. A filter on an embedded entity leaves the row and nulls the entity.
\<close>

record RelationTableRow =
  rt_id :: string
  rt_relation :: string
  rt_source_id :: string
  rt_target_id :: string

fun likeMatch :: "string \<Rightarrow> string \<Rightarrow> bool" where
  "likeMatch [] s = (s = [])"
| "likeMatch (p # ps) [] = (p = CHR ''%'' \<and> likeMatch ps [])"
| "likeMatch (p # ps) (c # cs) =
     (if p = CHR ''%'' then likeMatch ps (c # cs) \<or> likeMatch (p # ps) cs
      else (p = CHR ''_'' \<or> p = c) \<and> likeMatch ps cs)"

definition ilike :: "string \<Rightarrow> string \<Rightarrow> bool" where
  "ilike pattern s = likeMatch (toLowerCase pattern) (toLowerCase s)"

definition embedEntity :: "GraphSearchResult list \<Rightarrow> string \<Rightarrow> NestedEntity option" where
  "embedEntity entityTable ident =
     map_option (\<lambda>e. \<lparr>ne_id = gsr_id e, ne_name = gsr_name e, ne_type = Some (gsr_type e)\<rparr>)
       (find (\<lambda>e. gsr_id e = ident) entityTable)"

definition tableClient ::
  "GraphSearchResult list \<Rightarrow> RelationTableRow list \<Rightarrow>
   ('v \<Rightarrow> int \<Rightarrow> ('n VectorSearchResult) response) \<Rightarrow> (string list \<Rightarrow> EmbeddingRow response) \<Rightarrow>
   ('v, 'n) Supabase" where
  "tableClient entityTable relationTable rpc embeddings =
     \<lparr>rpc_search_similar_chunks = rpc,
      entities_ilike_eq = (\<lambda>pattern entityType limit.
        (Some (take limit (filter (\<lambda>e. ilike pattern (gsr_name e) \<and>
                 (case entityType of None \<Rightarrow> True | Some t \<Rightarrow> gsr_type e = t)) entityTable)), None)),
      entities_ilike_in = (\<lambda>pattern types limit.
        (Some (take limit (filter (\<lambda>e. ilike pattern (gsr_name e) \<and> gsr_type e \<in> set types)
                 entityTable)), None)),
      relations_in_target = (\<lambda>targetIds sourceType verbs.
        (Some (map (\<lambda>r. \<lparr>hrr_id = rt_id r, hrr_relation = rt_relation r,
                           hrr_source = find (\<lambda>e. gsr_id e = rt_source_id r \<and> gsr_type e = sourceType)
                                          entityTable\<rparr>)
                 (filter (\<lambda>r. rt_target_id r \<in> set targetIds \<and> rt_relation r \<in> set verbs)
                    relationTable)), None)),
      relations_in_source = (\<lambda>sourceIds.
        (Some (map (\<lambda>r. \<lparr>rr_id = rt_id r, rr_relation = rt_relation r,
                           rr_source = embedEntity entityTable (rt_source_id r),
                           rr_target = embedEntity entityTable (rt_target_id r)\<rparr>)
                 (filter (\<lambda>r. rt_source_id r \<in> set sourceIds) relationTable)), None)),
      embeddings_in_id = embeddings\<rparr>"

text \<open>
  The graph of the scenario: ginger (PLANT), headache (of the given type) and analgesic
  (EFFECT), with the relations (ginger, treats, headache) and (ginger, has_effect, analgesic).
\<close>

definition ginger :: GraphSearchResult where
  "ginger = \<lparr>gsr_id = ''e-ginger'', gsr_name = ''ginger'', gsr_type = ''PLANT''\<rparr>"

definition scenarioEntities :: "string \<Rightarrow> GraphSearchResult list" where
  "scenarioEntities headacheType =
     [ginger,
      \<lparr>gsr_id = ''e-headache'', gsr_name = ''headache'', gsr_type = headacheType\<rparr>,
      \<lparr>gsr_id = ''e-analgesic'', gsr_name = ''analgesic'', gsr_type = ''EFFECT''\<rparr>]"

definition scenarioRelations :: "RelationTableRow list" where
  "scenarioRelations =
     [\<lparr>rt_id = ''r-1'', rt_relation = ''treats'', rt_source_id = ''e-ginger'', rt_target_id = ''e-headache''\<rparr>,
      \<lparr>rt_id = ''r-2'', rt_relation = ''has_effect'', rt_source_id = ''e-ginger'', rt_target_id = ''e-analgesic''\<rparr>]"


text \<open>Stubs for the other collaborators, for concrete runs.\<close>

definition stubCollaborators :: "string \<Rightarrow> (unit, nat) Collaborators" where
  "stubCollaborators headacheType =
     \<lparr>extractQueryEntities = (\<lambda>q. [\<lparr>qe_name = ''headache'', qe_type = ''SYMPTOM''\<rparr>]),
      embeddingPipeline = (\<lambda>q. Inr ()),
      supabaseEnv = Some (tableClient (scenarioEntities headacheType) scenarioRelations
                           (\<lambda>v k. (Some [], None)) (\<lambda>ids. (Some [], None))),
      generateAnswer = (\<lambda>q vs hs rs. ''Ginger may help.'')\<rparr>"

section \<open>JavaScript regular expressions\<close>

text \<open>
  The regular expressions of the sources are values of \<open>regex\<close>, written constructor for
  operator, and matched by a backtracking matcher that tries alternatives in the order
  ECMAScript does: the left alternative first, a greedy quantifier the longest way first, a
  lazy one the shortest. \<open>\d{2,}\<close> is written \<open>\d\d+\<close>.
\<close>

datatype citem = CChar char | CRange char char | CDigit | CWord | CSpace | CNotSpace

datatype regex =
    Lit string
  | Dot
  | Class "citem list"
  | NotClass "citem list"
  | Seq regex regex
  | Alt regex regex
  | Star regex
  | StarLazy regex
  | Plus regex
  | Opt regex
  | Repeat nat nat regex
  | Group nat regex
  | Bol
  | Eol
  | WordB
  | Behind "citem list"

record flags =
  ignoreCase :: bool
  multiline :: bool

definition noFlags :: flags where "noFlags = \<lparr>ignoreCase = False, multiline = False\<rparr>"
definition flagI :: flags where "flagI = \<lparr>ignoreCase = True, multiline = False\<rparr>"
definition flagM :: flags where "flagM = \<lparr>ignoreCase = False, multiline = True\<rparr>"
definition flagMI :: flags where "flagMI = \<lparr>ignoreCase = True, multiline = True\<rparr>"

definition isDigit :: "char \<Rightarrow> bool" where
  "isDigit c = (let n = (of_char c :: nat) in 48 \<le> n \<and> n \<le> 57)"

definition isWordChar :: "char \<Rightarrow> bool" where
  "isWordChar c = (let n = (of_char c :: nat) in
     (48 \<le> n \<and> n \<le> 57) \<or> (65 \<le> n \<and> n \<le> 90) \<or> (97 \<le> n \<and> n \<le> 122) \<or> n = 95)"

definition isLineTerminator :: "char \<Rightarrow> bool" where
  "isLineTerminator c = (let n = (of_char c :: nat) in n = 10 \<or> n = 13)"

definition inRange :: "char \<Rightarrow> char \<Rightarrow> char \<Rightarrow> bool" where
  "inRange lo hi c = ((of_char lo :: nat) \<le> of_char c \<and> (of_char c :: nat) \<le> of_char hi)"

text \<open>The same predicates on the eight bits of a character, for evaluation.\<close>

lemma isDigit_code [code]:
  "isDigit (Char b0 b1 b2 b3 b4 b5 b6 b7) =
     (\<not> b7 \<and> \<not> b6 \<and> b5 \<and> b4 \<and> (\<not> b3 \<or> (\<not> b2 \<and> \<not> b1)))"
  by (cases b0; cases b1; cases b2; cases b3; cases b4; cases b5; cases b6; cases b7;
      simp add: isDigit_def)

lemma isWordChar_code [code]:
  "isWordChar (Char b0 b1 b2 b3 b4 b5 b6 b7) =
     (\<not> b7 \<and>
      ((\<not> b6 \<and> b5 \<and> b4 \<and> (\<not> b3 \<or> (\<not> b2 \<and> \<not> b1)))
       \<or> (b6 \<and> letterBits b0 b1 b2 b3 b4)
       \<or> (b6 \<and> \<not> b5 \<and> b4 \<and> b3 \<and> b2 \<and> b1 \<and> b0)))"
  by (cases b0; cases b1; cases b2; cases b3; cases b4; cases b5; cases b6; cases b7;
      simp add: isWordChar_def letterBits_def)

lemma isLineTerminator_code [code]:
  "isLineTerminator (Char b0 b1 b2 b3 b4 b5 b6 b7) =
     (\<not> b7 \<and> \<not> b6 \<and> \<not> b5 \<and> \<not> b4 \<and> b3 \<and> ((\<not> b2 \<and> b1 \<and> \<not> b0) \<or> (b2 \<and> \<not> b1 \<and> b0)))"
  by (cases b0; cases b1; cases b2; cases b3; cases b4; cases b5; cases b6; cases b7;
      simp add: isLineTerminator_def)

definition charCode :: "char \<Rightarrow> int" where
  "charCode c = int (of_char c)"

lemma charCode_code [code]:
  "charCode (Char b0 b1 b2 b3 b4 b5 b6 b7) =
     of_bool b0 + 2 * (of_bool b1 + 2 * (of_bool b2 + 2 * (of_bool b3 + 2 * (of_bool b4
       + 2 * (of_bool b5 + 2 * (of_bool b6 + 2 * of_bool b7))))))"
  by (simp add: charCode_def)

lemma inRange_code [code]:
  "inRange lo hi c = (charCode lo \<le> charCode c \<and> charCode c \<le> charCode hi)"
  by (simp add: inRange_def charCode_def)

text \<open>With the flag \<open>i\<close> two characters are the same when their upper-case forms are.\<close>

definition sameChar :: "flags \<Rightarrow> char \<Rightarrow> char \<Rightarrow> bool" where
  "sameChar f c d = (if ignoreCase f then toUpperChar c = toUpperChar d else c = d)"

fun itemMatches :: "flags \<Rightarrow> citem \<Rightarrow> char \<Rightarrow> bool" where
  "itemMatches f (CChar x) c = sameChar f x c"
| "itemMatches f (CRange lo hi) c =
     (inRange lo hi c \<or> (ignoreCase f \<and> (inRange lo hi (toLowerChar c) \<or> inRange lo hi (toUpperChar c))))"
| "itemMatches f CDigit c = isDigit c"
| "itemMatches f CWord c = isWordChar c"
| "itemMatches f CSpace c = isSpace c"
| "itemMatches f CNotSpace c = (\<not> isSpace c)"

definition classMatches :: "flags \<Rightarrow> citem list \<Rightarrow> char \<Rightarrow> bool" where
  "classMatches f items c = list_ex (\<lambda>i. itemMatches f i c) items"

text \<open>
  The state of a match: the index reached, the character before it, the rest of the
  input, and the captures so far.
\<close>

datatype mstate = MState (pos: int) (prev: "char option") (rest: string) (caps: "(nat \<times> string) list")

text \<open>
  What is left to match is a stack of frames: a regex, the end of an iteration of a
  quantifier that began at an index (an iteration that consumed nothing is rejected, as
  ECMAScript does), or the end of a capture group that began at an index with a rest.
\<close>

datatype frame =
    R regex
  | StarEnd regex int
  | StarLazyEnd regex int
  | GroupEnd nat int string

fun rsize :: "regex \<Rightarrow> nat" where
  "rsize (Lit s) = length s + 1"
| "rsize Dot = 1"
| "rsize (Class items) = 1"
| "rsize (NotClass items) = 1"
| "rsize (Seq a b) = rsize a + rsize b + 1"
| "rsize (Alt a b) = rsize a + rsize b + 1"
| "rsize (Star r) = rsize r + 2"
| "rsize (StarLazy r) = rsize r + 2"
| "rsize (Plus r) = 2 * rsize r + 3"
| "rsize (Opt r) = rsize r + 1"
| "rsize (Repeat lo hi r) = hi * (rsize r + 1) + 1"
| "rsize (Group n r) = rsize r + 2"
| "rsize Bol = 1"
| "rsize Eol = 1"
| "rsize WordB = 1"
| "rsize (Behind items) = 1"

fun fsize :: "int \<Rightarrow> frame \<Rightarrow> nat" where
  "fsize p (R r) = rsize r"
| "fsize p (StarEnd r q) = (if q < p then rsize r + 3 else 0)"
| "fsize p (StarLazyEnd r q) = (if q < p then rsize r + 3 else 0)"
| "fsize p (GroupEnd n q s) = 1"

definition atWordChar :: "char option \<Rightarrow> bool" where
  "atWordChar c = (case c of None \<Rightarrow> False | Some x \<Rightarrow> isWordChar x)"

definition nextChar :: "mstate \<Rightarrow> char option" where
  "nextChar st = (case rest st of [] \<Rightarrow> None | c # cs \<Rightarrow> Some c)"

function accept :: "flags \<Rightarrow> frame list \<Rightarrow> mstate \<Rightarrow> mstate option" where
  "accept f [] st = Some st"
| "accept f (R (Lit []) # k) st = accept f k st"
| "accept f (R (Lit (x # xs)) # k) (MState p pv [] cp) = None"
| "accept f (R (Lit (x # xs)) # k) (MState p pv (c # cs) cp) =
     (if sameChar f x c then accept f (R (Lit xs) # k) (MState (p + 1) (Some c) cs cp) else None)"
| "accept f (R Dot # k) (MState p pv [] cp) = None"
| "accept f (R Dot # k) (MState p pv (c # cs) cp) =
     (if isLineTerminator c then None else accept f k (MState (p + 1) (Some c) cs cp))"
| "accept f (R (Class items) # k) (MState p pv [] cp) = None"
| "accept f (R (Class items) # k) (MState p pv (c # cs) cp) =
     (if classMatches f items c then accept f k (MState (p + 1) (Some c) cs cp) else None)"
| "accept f (R (NotClass items) # k) (MState p pv [] cp) = None"
| "accept f (R (NotClass items) # k) (MState p pv (c # cs) cp) =
     (if classMatches f items c then None else accept f k (MState (p + 1) (Some c) cs cp))"
| "accept f (R (Seq a b) # k) st = accept f (R a # R b # k) st"
| "accept f (R (Alt a b) # k) st =
     (case accept f (R a # k) st of Some st' \<Rightarrow> Some st' | None \<Rightarrow> accept f (R b # k) st)"
| "accept f (R (Star r) # k) st =
     (case accept f (R r # StarEnd r (pos st) # k) st of Some st' \<Rightarrow> Some st'
      | None \<Rightarrow> accept f k st)"
| "accept f (StarEnd r q # k) st = (if q < pos st then accept f (R (Star r) # k) st else None)"
| "accept f (R (StarLazy r) # k) st =
     (case accept f k st of Some st' \<Rightarrow> Some st'
      | None \<Rightarrow> accept f (R r # StarLazyEnd r (pos st) # k) st)"
| "accept f (StarLazyEnd r q # k) st = (if q < pos st then accept f (R (StarLazy r) # k) st else None)"
| "accept f (R (Plus r) # k) st = accept f (R r # R (Star r) # k) st"
| "accept f (R (Opt r) # k) st =
     (case accept f (R r # k) st of Some st' \<Rightarrow> Some st' | None \<Rightarrow> accept f k st)"
| "accept f (R (Repeat lo 0 r) # k) st = accept f k st"
| "accept f (R (Repeat lo (Suc hi) r) # k) st =
     (if 0 < lo then accept f (R r # R (Repeat (lo - 1) hi r) # k) st
      else (case accept f (R r # R (Repeat 0 hi r) # k) st of Some st' \<Rightarrow> Some st'
            | None \<Rightarrow> accept f k st))"
| "accept f (R (Group n r) # k) st = accept f (R r # GroupEnd n (pos st) (rest st) # k) st"
| "accept f (GroupEnd n q s # k) (MState p pv cs cp) =
     accept f k (MState p pv cs ((n, take (nat (p - q)) s) # cp))"
| "accept f (R Bol # k) st =
     (if (case prev st of None \<Rightarrow> True | Some c \<Rightarrow> multiline f \<and> isLineTerminator c)
      then accept f k st else None)"
| "accept f (R Eol # k) st =
     (if (case nextChar st of None \<Rightarrow> True | Some c \<Rightarrow> multiline f \<and> isLineTerminator c)
      then accept f k st else None)"
| "accept f (R WordB # k) st =
     (if atWordChar (prev st) \<noteq> atWordChar (nextChar st) then accept f k st else None)"
| "accept f (R (Behind items) # k) st =
     (if (case prev st of None \<Rightarrow> False | Some c \<Rightarrow> classMatches f items c)
      then accept f k st else None)"
  by pat_completeness auto
termination
  by (relation "measures [\<lambda>(f, k, st). length (rest st), \<lambda>(f, k, st). sum_list (map (fsize (pos st)) k)]")
     auto

subsection \<open>The string methods that take a regular expression\<close>

definition startState :: "string \<Rightarrow> mstate" where
  "startState s = MState 0 None s []"

text \<open>A capture group that did not take part in the match reads as the empty string.\<close>

definition capture :: "mstate \<Rightarrow> nat \<Rightarrow> string" where
  "capture st n = (case map_of (caps st) n of None \<Rightarrow> [] | Some s \<Rightarrow> s)"

text \<open>
  The first index, from the state on, at which the regex matches: the state where the match
  starts and the state where it ends.
\<close>

function scanFrom :: "flags \<Rightarrow> regex \<Rightarrow> mstate \<Rightarrow> (mstate \<times> mstate) option" where
  "scanFrom f r (MState p pv [] cp) =
     (case accept f [R r] (MState p pv [] []) of
        Some st1 \<Rightarrow> Some (MState p pv [] [], st1)
      | None \<Rightarrow> None)"
| "scanFrom f r (MState p pv (c # cs) cp) =
     (case accept f [R r] (MState p pv (c # cs) []) of
        Some st1 \<Rightarrow> Some (MState p pv (c # cs) [], st1)
      | None \<Rightarrow> scanFrom f r (MState (p + 1) (Some c) cs []))"
  by pat_completeness auto
termination
  by (relation "measure (\<lambda>(f, r, st). length (rest st))") auto

text \<open>\<open>String.prototype.search\<close>: the index of the first match, or \<open>-1\<close>.\<close>

definition js_search :: "flags \<Rightarrow> regex \<Rightarrow> string \<Rightarrow> int" where
  "js_search f r s = (case scanFrom f r (startState s) of None \<Rightarrow> - 1 | Some (st0, st1) \<Rightarrow> pos st0)"

text \<open>\<open>RegExp.prototype.test\<close> and a truthy \<open>String.prototype.match\<close>, without the flag \<open>g\<close>.\<close>

definition js_test :: "flags \<Rightarrow> regex \<Rightarrow> string \<Rightarrow> bool" where
  "js_test f r s = (scanFrom f r (startState s) \<noteq> None)"

text \<open>\<open>String.prototype.match\<close> without the flag \<open>g\<close>: the end state of the first match,
  from which the groups are read.\<close>

definition js_match :: "flags \<Rightarrow> regex \<Rightarrow> string \<Rightarrow> mstate option" where
  "js_match f r s = map_option snd (scanFrom f r (startState s))"

text \<open>
  \<open>String.prototype.replace\<close> with the flag \<open>g\<close>. Every match, found from where the one
  before ended, is replaced by what \<open>repl\<close> makes of the matched text and the end state;
  after an empty match the search goes on one character later. \<open>skip\<close> counts the
  characters of the current match that are still to be passed over.
\<close>

function replaceFrom :: "flags \<Rightarrow> regex \<Rightarrow> (string \<Rightarrow> mstate \<Rightarrow> string) \<Rightarrow> nat \<Rightarrow> mstate \<Rightarrow> string" where
  "replaceFrom f r repl skip (MState p pv [] cp) =
     (if skip = 0 then (case accept f [R r] (MState p pv [] []) of
                          Some st1 \<Rightarrow> repl [] st1 | None \<Rightarrow> [])
      else [])"
| "replaceFrom f r repl skip (MState p pv (c # cs) cp) =
     (if 0 < skip then replaceFrom f r repl (skip - 1) (MState (p + 1) (Some c) cs [])
      else (case accept f [R r] (MState p pv (c # cs) []) of
              None \<Rightarrow> c # replaceFrom f r repl 0 (MState (p + 1) (Some c) cs [])
            | Some st1 \<Rightarrow>
                (let n = nat (pos st1 - p) in
                 repl (take n (c # cs)) st1 @
                 (if n = 0 then c # replaceFrom f r repl 0 (MState (p + 1) (Some c) cs [])
                  else replaceFrom f r repl (n - 1) (MState (p + 1) (Some c) cs [])))))"
  by pat_completeness auto
termination
  by (relation "measure (\<lambda>(f, r, repl, skip, st). length (rest st))") auto

definition js_replaceAll :: "flags \<Rightarrow> regex \<Rightarrow> (string \<Rightarrow> mstate \<Rightarrow> string) \<Rightarrow> string \<Rightarrow> string" where
  "js_replaceAll f r repl s = replaceFrom f r repl 0 (startState s)"

text \<open>The replacement by a fixed string.\<close>

definition js_replaceAllBy :: "flags \<Rightarrow> regex \<Rightarrow> string \<Rightarrow> string \<Rightarrow> string" where
  "js_replaceAllBy f r t s = js_replaceAll f r (\<lambda>m st. t) s"

text \<open>\<open>String.prototype.matchAll\<close> (and \<open>match\<close> with the flag \<open>g\<close>): every match with its end state.\<close>

function matchAllFrom :: "flags \<Rightarrow> regex \<Rightarrow> nat \<Rightarrow> mstate \<Rightarrow> (string \<times> mstate) list" where
  "matchAllFrom f r skip (MState p pv [] cp) =
     (if skip = 0 then (case accept f [R r] (MState p pv [] []) of
                          Some st1 \<Rightarrow> [([], st1)] | None \<Rightarrow> [])
      else [])"
| "matchAllFrom f r skip (MState p pv (c # cs) cp) =
     (if 0 < skip then matchAllFrom f r (skip - 1) (MState (p + 1) (Some c) cs [])
      else (case accept f [R r] (MState p pv (c # cs) []) of
              None \<Rightarrow> matchAllFrom f r 0 (MState (p + 1) (Some c) cs [])
            | Some st1 \<Rightarrow>
                (let n = nat (pos st1 - p) in
                 (take n (c # cs), st1) # matchAllFrom f r (n - 1) (MState (p + 1) (Some c) cs []))))"
  by pat_completeness auto
termination
  by (relation "measure (\<lambda>(f, r, skip, st). length (rest st))") auto

definition js_matchAll :: "flags \<Rightarrow> regex \<Rightarrow> string \<Rightarrow> (string \<times> mstate) list" where
  "js_matchAll f r s = matchAllFrom f r 0 (startState s)"

text \<open>
  \<open>String.prototype.split\<close> with a regex that has no capture group. \<open>cur\<close> is the piece
  since the last separator, reversed. A match that is empty where the piece is empty is no
  separator; no match is tried at the end of the string.
\<close>

function splitFrom :: "flags \<Rightarrow> regex \<Rightarrow> string \<Rightarrow> nat \<Rightarrow> mstate \<Rightarrow> string list" where
  "splitFrom f r cur skip (MState p pv [] cp) = [rev cur]"
| "splitFrom f r cur skip (MState p pv (c # cs) cp) =
     (if 0 < skip then splitFrom f r cur (skip - 1) (MState (p + 1) (Some c) cs [])
      else (case accept f [R r] (MState p pv (c # cs) []) of
              None \<Rightarrow> splitFrom f r (c # cur) 0 (MState (p + 1) (Some c) cs [])
            | Some st1 \<Rightarrow>
                (let n = nat (pos st1 - p) in
                 if n = 0 then
                   (if cur = [] then splitFrom f r [c] 0 (MState (p + 1) (Some c) cs [])
                    else rev cur # splitFrom f r [c] 0 (MState (p + 1) (Some c) cs []))
                 else rev cur # splitFrom f r [] (n - 1) (MState (p + 1) (Some c) cs []))))"
  by pat_completeness auto
termination
  by (relation "measure (\<lambda>(f, r, cur, skip, st). length (rest st))") auto

definition js_split :: "flags \<Rightarrow> regex \<Rightarrow> string \<Rightarrow> string list" where
  "js_split f r s =
     (if s = [] then (if accept f [R r] (startState []) = None then [[]] else [])
      else splitFrom f r [] 0 (startState s))"

text \<open>\<open>split\<close> with a one-character string as separator, and \<open>join\<close>.\<close>

fun splitOnChar :: "char \<Rightarrow> string \<Rightarrow> string \<Rightarrow> string list" where
  "splitOnChar sep cur [] = [rev cur]"
| "splitOnChar sep cur (c # cs) =
     (if c = sep then rev cur # splitOnChar sep [] cs else splitOnChar sep (c # cur) cs)"

definition splitLines :: "string \<Rightarrow> string list" where
  "splitLines s = splitOnChar CHR 0x0A [] s"

fun js_join :: "string \<Rightarrow> string list \<Rightarrow> string" where
  "js_join sep [] = []"
| "js_join sep [x] = x"
| "js_join sep (x # y # ys) = x @ sep @ js_join sep (y # ys)"

text \<open>\<open>substring(from)\<close> and \<open>substring(0, to)\<close> with an index that is not negative.\<close>

definition substringFrom :: "int \<Rightarrow> string \<Rightarrow> string" where
  "substringFrom i s = drop (nat i) s"

definition substringTo :: "int \<Rightarrow> string \<Rightarrow> string" where
  "substringTo i s = take (nat i) s"

section \<open>JSON.parse\<close>

text \<open>
  The values \<open>JSON.parse\<close> returns. A number is kept exactly, as \<open>mantissa * 10 ^ exponent\<close>;
  an object lists its members in the order of their first appearance, a repeated key
  keeping its last value. A \<open>\u\<close> escape above 255 is outside the model and is refused.
\<close>

datatype json =
    JNull
  | JBool bool
  | JNumber int int
  | JString string
  | JArray "json list"
  | JObject "(string \<times> json) list"

definition isJsonSpace :: "char \<Rightarrow> bool" where
  "isJsonSpace c = (c = CHR '' '' \<or> c = CHR 0x09 \<or> c = CHR 0x0A \<or> c = CHR 0x0D)"

definition skipWs :: "string \<Rightarrow> string" where
  "skipWs s = dropWhile isJsonSpace s"

definition hexValue :: "char \<Rightarrow> nat option" where
  "hexValue c = map_of (zip ''0123456789abcdefABCDEF''
                   [0, 1, 2, 3, 4, 5, 6, 7, 8, 9, 10, 11, 12, 13, 14, 15, 10, 11, 12, 13, 14, 15]) c"

definition escapeChar :: "char \<Rightarrow> char option" where
  "escapeChar c = map_of [(CHR 0x22, CHR 0x22), (CHR 0x5C, CHR 0x5C), (CHR ''/'', CHR ''/''),
                          (CHR ''b'', CHR 0x08), (CHR ''f'', CHR 0x0C), (CHR ''n'', CHR 0x0A),
                          (CHR ''r'', CHR 0x0D), (CHR ''t'', CHR 0x09)] c"

definition hex4 :: "char \<Rightarrow> char \<Rightarrow> char \<Rightarrow> char \<Rightarrow> nat option" where
  "hex4 h1 h2 h3 h4 =
     (case (hexValue h1, hexValue h2, hexValue h3, hexValue h4) of
        (Some a, Some b, Some c, Some d) \<Rightarrow> Some (((a * 16 + b) * 16 + c) * 16 + d)
      | _ \<Rightarrow> None)"

definition isControl :: "char \<Rightarrow> bool" where
  "isControl c = ((of_char c :: nat) < 32)"

lemma isControl_code [code]:
  "isControl (Char b0 b1 b2 b3 b4 b5 b6 b7) = (\<not> b7 \<and> \<not> b6 \<and> \<not> b5)"
  by (cases b0; cases b1; cases b2; cases b3; cases b4; cases b5; cases b6; cases b7;
      simp add: isControl_def)

text \<open>The characters of a string after its opening quote, up to the closing quote.\<close>

fun parseStringBody :: "string \<Rightarrow> string \<Rightarrow> (string \<times> string) option" where
  "parseStringBody acc [] = None"
| "parseStringBody acc (c # cs) =
     (if c = CHR 0x22 then Some (rev acc, cs)
      else if c = CHR 0x5C then
        (case cs of
           [] \<Rightarrow> None
         | e # es \<Rightarrow>
             if e = CHR ''u'' then
               (case es of
                  h1 # h2 # h3 # h4 # r \<Rightarrow>
                    (case hex4 h1 h2 h3 h4 of
                       None \<Rightarrow> None
                     | Some n \<Rightarrow> if n < 256 then parseStringBody (char_of n # acc) r else None)
                | _ \<Rightarrow> None)
             else (case escapeChar e of None \<Rightarrow> None
                   | Some x \<Rightarrow> parseStringBody (x # acc) es))
      else if isControl c then None
      else parseStringBody (c # acc) cs)"

definition digitsValue :: "string \<Rightarrow> int" where
  "digitsValue ds = foldl (\<lambda>v d. 10 * v + (charCode d - 48)) 0 ds"

text \<open>
  A number: an optional minus, an integer part without a leading zero, an optional
  fraction and an optional exponent.
\<close>

definition parseNumber :: "string \<Rightarrow> (json \<times> string) option" where
  "parseNumber s =
     (let (neg, s1) = (case s of c # cs \<Rightarrow> if c = CHR ''-'' then (True, cs) else (False, s)
                        | [] \<Rightarrow> (False, s));
          ip = takeWhile isDigit s1; s2 = dropWhile isDigit s1
      in if ip = [] \<or> (hd ip = CHR ''0'' \<and> length ip > 1) then None
         else
           (let (fp, s3, okf) =
                  (case s2 of
                     c # cs \<Rightarrow> if c = CHR ''.''
                                then (takeWhile isDigit cs, dropWhile isDigit cs, takeWhile isDigit cs \<noteq> [])
                                else ([], s2, True)
                   | [] \<Rightarrow> ([], s2, True));
                (ex, s4, oke) =
                  (case s3 of
                     c # cs \<Rightarrow>
                       if c = CHR ''e'' \<or> c = CHR ''E'' then
                         (let (eneg, cs1) =
                                (case cs of d # ds \<Rightarrow> if d = CHR ''-'' then (True, ds)
                                                       else if d = CHR ''+'' then (False, ds)
                                                       else (False, cs)
                                 | [] \<Rightarrow> (False, cs));
                              ed = takeWhile isDigit cs1
                          in ((if eneg then - digitsValue ed else digitsValue ed),
                              dropWhile isDigit cs1, ed \<noteq> []))
                       else (0, s3, True)
                   | [] \<Rightarrow> (0, s3, True))
            in if okf \<and> oke
               then Some (JNumber ((if neg then - 1 else 1) * digitsValue (ip @ fp))
                                  (ex - int (length fp)), s4)
               else None))"

definition startsWith :: "string \<Rightarrow> string \<Rightarrow> bool" where
  "startsWith s p = (take (length p) s = p)"

lemma parseStringBody_shorter:
  "parseStringBody acc s = Some (t, r) \<Longrightarrow> length r < length s"
proof (induction acc s arbitrary: t r rule: parseStringBody.induct)
  case (1 acc)
  then show ?case by simp
next
  case (2 acc c cs)
  show ?case
  proof (cases "c = CHR 0x22")
    case True
    with 2(4) show ?thesis by simp
  next
    case nq: False
    show ?thesis
    proof (cases "c = CHR 0x5C")
      case False
      with nq 2(3) [of t r] 2(4) show ?thesis by (auto split: if_splits)
    next
      case True
      show ?thesis
      proof (cases cs)
        case Nil
        with nq True 2(4) show ?thesis by simp
      next
        case (Cons e es)
        show ?thesis
        proof (cases "e = CHR ''u''")
          case False
          with nq True Cons 2(2) [of e es _ t r] 2(4) show ?thesis
            by (auto split: option.splits)
        next
          case u: True
          from nq True Cons u 2(4) obtain h1 h2 h3 h4 r0 n where
            es: "es = h1 # h2 # h3 # h4 # r0" and n: "hex4 h1 h2 h3 h4 = Some n" "n < 256"
            and rec: "parseStringBody (char_of n # acc) r0 = Some (t, r)"
            by (auto split: list.splits option.splits if_splits)
          have "length r < length r0"
            using 2(1) [OF nq True Cons u es refl refl refl n rec] .
          with Cons es show ?thesis by simp
        qed
      qed
    qed
  qed
qed

lemma skipWs_length: "length (skipWs s) \<le> length s"
  by (simp add: skipWs_def length_dropWhile_le)

lemma skipWs_Cons_length: "skipWs s = c # cs \<Longrightarrow> length cs < length s"
  using skipWs_length [of s] by simp

text \<open>
  A value, the elements of an array after \<open>[\<close>, and the members of an object after \<open>{\<close>.
  A value takes at least one character; the test that it did is what the recursion
  rests on and never fails.
\<close>

function parseValue :: "string \<Rightarrow> (json \<times> string) option"
  and parseElements :: "string \<Rightarrow> json list \<Rightarrow> (json \<times> string) option"
  and parseMembers :: "string \<Rightarrow> (string \<times> json) list \<Rightarrow> (json \<times> string) option" where
  "parseValue s =
     (case skipWs s of
        [] \<Rightarrow> None
      | c # cs \<Rightarrow>
          if c = CHR ''{'' then
            (case skipWs cs of
               [] \<Rightarrow> None
             | d # ds \<Rightarrow> if d = CHR ''}'' then Some (JObject [], ds) else parseMembers cs [])
          else if c = CHR ''['' then
            (case skipWs cs of
               [] \<Rightarrow> None
             | d # ds \<Rightarrow> if d = CHR '']'' then Some (JArray [], ds) else parseElements cs [])
          else if c = CHR 0x22 then
            (case parseStringBody [] cs of None \<Rightarrow> None | Some (t, r) \<Rightarrow> Some (JString t, r))
          else if startsWith (c # cs) ''true'' then Some (JBool True, drop 4 (c # cs))
          else if startsWith (c # cs) ''false'' then Some (JBool False, drop 5 (c # cs))
          else if startsWith (c # cs) ''null'' then Some (JNull, drop 4 (c # cs))
          else parseNumber (c # cs))"
| "parseElements s acc =
     (case parseValue s of
        None \<Rightarrow> None
      | Some (v, r) \<Rightarrow>
          if length r < length s then
            (case skipWs r of
               [] \<Rightarrow> None
             | c # cs \<Rightarrow> if c = CHR '','' then parseElements cs (acc @ [v])
                         else if c = CHR '']'' then Some (JArray (acc @ [v]), cs)
                         else None)
          else None)"
| "parseMembers s acc =
     (case skipWs s of
        [] \<Rightarrow> None
      | q # qs \<Rightarrow>
          if q = CHR 0x22 then
            (case parseStringBody [] qs of
               None \<Rightarrow> None
             | Some (key, r) \<Rightarrow>
                 (case skipWs r of
                    [] \<Rightarrow> None
                  | c # cs \<Rightarrow>
                      if c = CHR '':'' then
                        (case parseValue cs of
                           None \<Rightarrow> None
                         | Some (v, r') \<Rightarrow>
                             if length r' < length cs then
                               (case skipWs r' of
                                  [] \<Rightarrow> None
                                | d # ds \<Rightarrow> if d = CHR '','' then parseMembers ds (mapSet acc key v)
                                            else if d = CHR ''}'' then Some (JObject (mapSet acc key v), ds)
                                            else None)
                             else None)
                      else None))
          else None)"
  by pat_completeness auto
termination
proof (relation "measure (\<lambda>x. case x of
          Inl s \<Rightarrow> 2 * length s
        | Inr (Inl (s, acc)) \<Rightarrow> 2 * length s + 1
        | Inr (Inr (s, acc)) \<Rightarrow> 2 * length s + 1)", goal_cases)
  case 1
  then show ?case by simp
next
  case (2 s c cs d ds)
  then show ?case using skipWs_Cons_length [of s c cs] by simp
next
  case (3 s c cs d ds)
  then show ?case using skipWs_Cons_length [of s c cs] by simp
next
  case (4 s acc)
  then show ?case by simp
next
  case (5 s acc x v r c cs)
  then show ?case using skipWs_Cons_length [of r c cs] by simp
next
  case (6 s acc q qs x key r c cs)
  then show ?case
    using skipWs_Cons_length [of s q qs] parseStringBody_shorter [of "[]" qs key r]
      skipWs_Cons_length [of r c cs] by simp
next
  case (7 s acc q qs x key r c cs x' v r' d ds)
  then show ?case
    using skipWs_Cons_length [of s q qs] parseStringBody_shorter [of "[]" qs key r]
      skipWs_Cons_length [of r c cs] skipWs_Cons_length [of r' d ds] by simp
qed

datatype parseError = SyntaxError

definition JSON_parse :: "string \<Rightarrow> parseError + json" where
  "JSON_parse s =
     (case parseValue s of
        None \<Rightarrow> Inl SyntaxError
      | Some (v, r) \<Rightarrow> if skipWs r = [] then Inr v else Inl SyntaxError)"

section \<open>lib/text-utils.ts\<close>

subsection \<open>parseJSONResponse\<close>

definition dq :: char where "dq = CHR 0x22"
definition nl :: char where "nl = CHR 0x0A"

text \<open>The regex \<open>abc...\<close> of parts that follow one another.\<close>

fun seqs :: "regex list \<Rightarrow> regex" where
  "seqs [] = Lit []"
| "seqs [r] = r"
| "seqs (r # q # rs) = Seq r (seqs (q # rs))"

text \<open>\<open>/```json\n?/g\<close> and \<open>/```\n?/g\<close>\<close>

definition fenceJsonRegex :: regex where
  "fenceJsonRegex = seqs [Lit ''```json'', Opt (Lit [nl])]"

definition fenceRegex :: regex where
  "fenceRegex = seqs [Lit ''```'', Opt (Lit [nl])]"

text \<open>\<open>/[\u0000-\u001F\u007F-\u009F]/g\<close>\<close>

definition controlRegex :: regex where
  "controlRegex = Class [CRange (CHR 0x00) (CHR 0x1F), CRange (CHR 0x7F) (CHR 0x9F)]"

text \<open>\<open>/"([^"]*?)\n([^"]*?)"/g\<close>, replaced by \<open>'"$1 $2"'\<close>\<close>

definition brokenStringRegex :: regex where
  "brokenStringRegex =
     seqs [Lit [dq], Group 1 (StarLazy (NotClass [CChar dq])), Lit [nl],
           Group 2 (StarLazy (NotClass [CChar dq])), Lit [dq]]"

text \<open>\<open>/,\s*([}\]])/g\<close>, replaced by \<open>'$1'\<close>\<close>

definition trailingCommaRegex :: regex where
  "trailingCommaRegex =
     seqs [Lit '','', Star (Class [CSpace]), Group 1 (Class [CChar CHR ''}'', CChar CHR '']''])]"

text \<open>\<open>(s.match(/x/g) || []).length\<close> for a one-character pattern.\<close>

definition countMatches :: "char \<Rightarrow> string \<Rightarrow> nat" where
  "countMatches c s = length (js_matchAll noFlags (Lit [c]) s)"

definition parseJSONResponse :: "string \<Rightarrow> parseError + json" where
  "parseJSONResponse content =
     (let jsonContent0 =
            (if startsWith content ''```json''
             then js_replaceAllBy noFlags fenceRegex [] (js_replaceAllBy noFlags fenceJsonRegex [] content)
             else if startsWith content ''```''
             then js_replaceAllBy noFlags fenceRegex [] content
             else content);
          jsonContent1 =
            trim (js_replaceAllBy noFlags (Plus (Class [CSpace])) '' ''
              (js_replaceAllBy noFlags (Lit [CHR 0x09]) '' ''
                (js_replaceAllBy noFlags (Lit [nl]) '' ''
                  (js_replaceAllBy noFlags (Lit [CHR 0x0D]) []
                    (js_replaceAllBy noFlags controlRegex [] jsonContent0)))));
          jsonContent2 =
            js_replaceAll noFlags brokenStringRegex
              (\<lambda>m st. [dq] @ capture st 1 @ '' '' @ capture st 2 @ [dq]) jsonContent1;
          jsonContent3 = js_replaceAllBy noFlags (Lit [CHR 0x27]) [dq] jsonContent2;
          jsonContent4 = js_replaceAll noFlags trailingCommaRegex (\<lambda>m st. capture st 1) jsonContent3;
          openBraces = countMatches CHR ''{'' jsonContent4;
          closeBraces = countMatches CHR ''}'' jsonContent4;
          openBrackets = countMatches CHR ''['' jsonContent4;
          closeBrackets = countMatches CHR '']'' jsonContent4;
          jsonContent5 =
            (if openBrackets > closeBrackets
             then jsonContent4 @ replicate (openBrackets - closeBrackets) CHR '']''
             else jsonContent4);
          jsonContent6 =
            (if openBraces > closeBraces
             then jsonContent5 @ replicate (openBraces - closeBraces) CHR ''}''
             else jsonContent5)
      in JSON_parse jsonContent6)"

subsection \<open>cleanAcademicText\<close>

text \<open>The regex \<open>a|b|c|...\<close> of literal alternatives, in their order.\<close>

fun anyOf :: "string list \<Rightarrow> regex" where
  "anyOf [] = Lit []"
| "anyOf [w] = Lit w"
| "anyOf (w # v # ws) = Alt (Lit w) (anyOf (v # ws))"

definition ws :: regex where "ws = Class [CSpace]"
definition digit :: regex where "digit = Class [CDigit]"

text \<open>\<open>^.*?r.*?$\<close>: a whole line in which \<open>r\<close> matches somewhere.\<close>

definition lineWith :: "regex \<Rightarrow> regex" where
  "lineWith r = seqs [Bol, StarLazy Dot, r, StarLazy Dot, Eol]"

text \<open>Step 1: the text starts at the earliest of the abstract patterns.\<close>

definition abstractPatterns :: "(flags \<times> regex) list" where
  "abstractPatterns =
     [(flagI, seqs [WordB, Lit ''ABSTRACT'', WordB]),
      (noFlags, seqs [WordB, Lit ''Abstract'', WordB]),
      (flagI, seqs [WordB, Lit ''ABSTRAK'', WordB]),
      (flagI, seqs [WordB, Lit ''INTRODUCTION'', WordB]),
      (flagI, seqs [WordB, Lit ''PENDAHULUAN'', WordB])]"

definition findStartIndex :: "string \<Rightarrow> int" where
  "findStartIndex cleaned =
     fold (\<lambda>(f, pattern) startIndex.
             (let found = js_search f pattern cleaned
              in if found \<noteq> - 1 \<and> (startIndex = - 1 \<or> found < startIndex) then found
                 else startIndex))
       abstractPatterns (- 1)"

definition startAtAbstract :: "string \<Rightarrow> string" where
  "startAtAbstract cleaned =
     (let startIndex = findStartIndex cleaned
      in if startIndex > 0 then substringFrom startIndex cleaned else cleaned)"

text \<open>
  Step 2: the header pattern the LLM detected. The pattern is escaped before it is
  compiled, so it is matched as a literal; so is every word of it.
\<close>

definition removeHeader :: "string \<Rightarrow> string \<Rightarrow> string" where
  "removeHeader headerPattern cleaned =
     (if headerPattern \<noteq> [] \<and> length headerPattern > 5 then
        (let cleaned1 = js_replaceAllBy flagI (Lit headerPattern) [] cleaned;
             headerWords = filter (\<lambda>w. length w > 4) (js_split noFlags (Plus ws) headerPattern)
         in fold (\<lambda>word c. if length word > 5 then js_replaceAllBy flagMI (lineWith (Lit word)) [] c
                             else c)
              headerWords cleaned1)
      else cleaned)"

text \<open>
  \<open>/^.*?(?:Majalah|Journal|Jurnal|ISSN|Vol\.|Volume).*?$/gmi\<close>,
  \<open>/^.*?(?:Traditional|Medicine|Obat|Tradisional).*?ISSN.*?$/gmi\<close> and
  \<open>/^.*?p-ISSN|e-ISSN.*?$/gmi\<close>
\<close>

definition removeJournalLines :: "string \<Rightarrow> string" where
  "removeJournalLines cleaned =
     js_replaceAllBy flagMI
       (Alt (seqs [Bol, StarLazy Dot, Lit ''p-ISSN'']) (seqs [Lit ''e-ISSN'', StarLazy Dot, Eol])) []
       (js_replaceAllBy flagMI
          (seqs [Bol, StarLazy Dot, anyOf [''Traditional'', ''Medicine'', ''Obat'', ''Tradisional''],
                 StarLazy Dot, Lit ''ISSN'', StarLazy Dot, Eol]) []
          (js_replaceAllBy flagMI
             (seqs [Bol, StarLazy Dot,
                    anyOf [''Majalah'', ''Journal'', ''Jurnal'', ''ISSN'', ''Vol.'', ''Volume''],
                    StarLazy Dot, Eol]) []
             cleaned))"

text \<open>Step 3: the footer pattern, a literal as well.\<close>

definition removeFooter :: "string \<Rightarrow> string \<Rightarrow> string" where
  "removeFooter footerPattern cleaned =
     (if footerPattern \<noteq> [] \<and> length footerPattern > 5
      then js_replaceAllBy flagI (Lit footerPattern) [] cleaned else cleaned)"

text \<open>
  Step 4: \<open>/^.*?(?:Majalah|Journal|Jurnal).*?\d+\(\d+\).*?\d{4}\s*\d+\s*$/gmi\<close> and
  \<open>/^.*?(?:Majalah|Journal|Jurnal).*?\d+.*?\d{4}.*?$/gmi\<close>
\<close>

definition journalNames :: regex where
  "journalNames = anyOf [''Majalah'', ''Journal'', ''Jurnal'']"

definition removeJournalFooters :: "string \<Rightarrow> string" where
  "removeJournalFooters cleaned =
     js_replaceAllBy flagMI
       (seqs [Bol, StarLazy Dot, journalNames, StarLazy Dot, Plus digit, StarLazy Dot,
              Repeat 4 4 digit, StarLazy Dot, Eol]) []
       (js_replaceAllBy flagMI
          (seqs [Bol, StarLazy Dot, journalNames, StarLazy Dot, Plus digit, Lit ''('', Plus digit,
                 Lit '')'', StarLazy Dot, Repeat 4 4 digit, Star ws, Plus digit, Star ws, Eol]) []
          cleaned)"

text \<open>
  Step 5: \<open>/ISSN[- ]*[pe]?\s*:?\s*\d{4}[-\s]*\d{4}/gi\<close>, \<open>/DOI\s*:?\s*[\d.\/a-z-]+/gi\<close>,
  \<open>/https?:\/\/[^\s]+/gi\<close> and \<open>/[\w.-]+@[\w.-]+\.[a-z]{2,}/gi\<close>
\<close>

definition removeMetadata :: "string \<Rightarrow> string" where
  "removeMetadata cleaned =
     js_replaceAllBy flagI
       (seqs [Plus (Class [CWord, CChar CHR ''.'', CChar CHR ''-'']), Lit ''@'',
              Plus (Class [CWord, CChar CHR ''.'', CChar CHR ''-'']), Lit ''.'',
              Class [CRange CHR ''a'' CHR ''z''], Plus (Class [CRange CHR ''a'' CHR ''z''])]) []
       (js_replaceAllBy flagI
          (seqs [Lit ''http'', Opt (Lit ''s''), Lit ''://'', Plus (NotClass [CSpace])]) []
          (js_replaceAllBy flagI
             (seqs [Lit ''DOI'', Star ws, Opt (Lit '':''), Star ws,
                    Plus (Class [CDigit, CChar CHR ''.'', CChar CHR ''/'', CRange CHR ''a'' CHR ''z'',
                                 CChar CHR ''-''])]) []
             (js_replaceAllBy flagI
                (seqs [Lit ''ISSN'', Star (Class [CChar CHR ''-'', CChar CHR '' '']),
                       Opt (Class [CChar CHR ''p'', CChar CHR ''e'']), Star ws, Opt (Lit '':''),
                       Star ws, Repeat 4 4 digit, Star (Class [CChar CHR ''-'', CSpace]),
                       Repeat 4 4 digit]) []
                cleaned)))"

text \<open>
  Step 6: \<open>/^\s*\d+\s*$/gm\<close>, \<open>/^\s*-\s*\d+\s*-\s*$/gm\<close> and \<open>/^.*?\d{4}\s+\d{1,4}\s*$/gm\<close>
\<close>

definition removePageNumbers :: "string \<Rightarrow> string" where
  "removePageNumbers cleaned =
     js_replaceAllBy flagM
       (seqs [Bol, StarLazy Dot, Repeat 4 4 digit, Plus ws, Repeat 1 4 digit, Star ws, Eol]) []
       (js_replaceAllBy flagM
          (seqs [Bol, Star ws, Lit ''-'', Star ws, Plus digit, Star ws, Lit ''-'', Star ws, Eol]) []
          (js_replaceAllBy flagM (seqs [Bol, Star ws, Plus digit, Star ws, Eol]) [] cleaned))"

text \<open>Step 7: \<open>/[ \t]+/g\<close> becomes one space, \<open>/\n\s*\n\s*\n+/g\<close> two line feeds.\<close>

definition collapseBlankLines :: "string \<Rightarrow> string" where
  "collapseBlankLines cleaned =
     js_replaceAllBy noFlags (seqs [Lit [nl], Star ws, Lit [nl], Star ws, Plus (Lit [nl])]) [nl, nl]
       cleaned"

definition normalizeWhitespace :: "string \<Rightarrow> string" where
  "normalizeWhitespace cleaned =
     collapseBlankLines
       (js_replaceAllBy noFlags (Plus (Class [CChar CHR '' '', CChar CHR 0x09])) '' '' cleaned)"

text \<open>
  Step 8: the filter over the lines; \<open>rest\<close> holds the lines after the current one, so that its
  head is \<open>lines[index + 1]\<close>. \<open>/(?:Majalah|Journal|Jurnal).*?\d+/i\<close>
\<close>

definition keepLine :: "string \<Rightarrow> string list \<Rightarrow> bool" where
  "keepLine line following =
     (let trimmed = trim line in
      if length trimmed = 0 then True
      else if js_test flagI (seqs [journalNames, StarLazy Dot, Plus digit]) trimmed then False
      else if length trimmed < 15 then
        (case following of
           nextLine # others \<Rightarrow>
             if nextLine \<noteq> [] \<and> length (trim nextLine) > 40 then True else length trimmed \<ge> 3
         | [] \<Rightarrow> length trimmed \<ge> 3)
      else True)"

fun filterLines :: "string list \<Rightarrow> string list" where
  "filterLines [] = []"
| "filterLines (line # following) =
     (if keepLine line following then line # filterLines following else filterLines following)"

definition removeShortLines :: "string \<Rightarrow> string" where
  "removeShortLines cleaned = js_join [nl] (filterLines (splitLines cleaned))"

text \<open>
  Step 9: the repeated lines. \<open>lineFrequency\<close> is a plain object used as a map from a trimmed
  line to its count, kept here in insertion order (a line of digits only, whose key would
  come first, was removed in step 6). A line that is the name of a property every object
  inherits never gets a numeric count, because \<open>lineFrequency[trimmed] || 0\<close> finds the
  inherited value.
\<close>

definition objectPrototypeKeys :: "string list" where
  "objectPrototypeKeys =
     [''constructor'', ''__defineGetter__'', ''__defineSetter__'', ''hasOwnProperty'',
      ''__lookupGetter__'', ''__lookupSetter__'', ''isPrototypeOf'', ''propertyIsEnumerable'',
      ''toString'', ''valueOf'', ''__proto__'', ''toLocaleString'']"

fun bump :: "(string \<times> nat) list \<Rightarrow> string \<Rightarrow> (string \<times> nat) list" where
  "bump [] k = [(k, 1)]"
| "bump ((k', n) # m) k = (if k' = k then (k', n + 1) # m else (k', n) # bump m k)"

definition lineFrequency :: "string \<Rightarrow> (string \<times> nat) list" where
  "lineFrequency cleaned =
     fold (\<lambda>line freq.
             (let trimmed = trim line
              in if length trimmed > 5 \<and> length trimmed < 150 \<and> trimmed \<notin> set objectPrototypeKeys
                 then bump freq trimmed else freq))
       (splitLines cleaned) []"

definition repeatedLines :: "string \<Rightarrow> string list" where
  "repeatedLines cleaned = map fst (filter (\<lambda>(line, n). n \<ge> 2) (lineFrequency cleaned))"

text \<open>\<open>new RegExp('^\\s*' + escaped(line) + '\\s*$', 'gm')\<close>\<close>

definition wholeLine :: "string \<Rightarrow> regex" where
  "wholeLine line = seqs [Bol, Star ws, Lit line, Star ws, Eol]"

definition removeRepeatedLines :: "string \<Rightarrow> string" where
  "removeRepeatedLines cleaned =
     fold (\<lambda>line c. js_replaceAllBy flagM (wholeLine line) [] c) (repeatedLines cleaned) cleaned"

text \<open>
  Steps 10 to 13: the sections that end the text. \<open>index < cleaned.length * 0.9\<close> is
  \<open>10 * index < 9 * length\<close> and \<open>afterSection.length < cleaned.length * 0.4\<close> is
  \<open>5 * length afterSection < 2 * length\<close>: the products by 0.9 and 0.4 round to the
  exact value whenever that is an integer.
\<close>

definition spaces :: regex where "spaces = Plus ws"

definition conflictsRegex :: regex where
  "conflictsRegex =
     seqs [WordB,
           Group 1
             (Alt (seqs [Lit ''CONFLICT'', Opt (Lit ''S''), spaces, Lit ''OF'', spaces, Lit ''INTEREST''])
             (Alt (seqs [Lit ''CONFLICT'', spaces, Lit ''OF'', spaces, Lit ''INTEREST''])
             (Alt (seqs [Lit ''COMPETING'', spaces, Lit ''INTEREST'', Opt (Lit ''S'')])
                  (seqs [Lit ''KONFLIK'', spaces, Lit ''KEPENTINGAN''])))),
           WordB]"

definition acknowledgmentsRegex :: regex where
  "acknowledgmentsRegex =
     seqs [WordB,
           Group 1
             (Alt (seqs [Lit ''ACKNOWLEDGMENT'', Opt (Lit ''S'')])
             (Alt (seqs [Lit ''ACKNOWLEDGEMENT'', Opt (Lit ''S'')])
                  (seqs [Lit ''UCAPAN'', spaces, Lit ''TERIMA'', spaces, Lit ''KASIH'']))),
           WordB]"

definition referencesRegex :: regex where
  "referencesRegex =
     seqs [WordB,
           Group 1
             (Alt (seqs [Lit ''REFERENCE'', Opt (Lit ''S'')])
             (Alt (seqs [Lit ''DAFTAR'', spaces, Lit ''PUSTAKA''])
             (Alt (Lit ''BIBLIOGRAPHY'')
             (Alt (Lit ''LITERATUR'')
                  (seqs [Lit ''CITATION'', Opt (Lit ''S'')]))))),
           WordB]"

text \<open>\<open>/^\s*\d+\.\s+[A-Z]/m\<close>\<close>

definition numberedRefsRegex :: regex where
  "numberedRefsRegex =
     seqs [Bol, Star ws, Plus digit, Lit ''.'', Plus ws, Class [CRange CHR ''A'' CHR ''Z'']]"

definition authorRegex :: regex where
  "authorRegex =
     seqs [WordB,
           Group 1
             (Alt (seqs [Lit ''AUTHOR'', Opt (Lit ''S''), spaces, Lit ''CONTRIBUTION'', Opt (Lit ''S'')])
                  (seqs [Lit ''KONTRIBUSI'', spaces, Lit ''PENULIS''])),
           WordB]"

definition cutConflicts :: "string \<Rightarrow> string" where
  "cutConflicts cleaned =
     (let conflictsIndex = js_search flagI conflictsRegex cleaned
      in if conflictsIndex > 0 then trim (substringTo conflictsIndex cleaned) else cleaned)"

definition cutAcknowledgments :: "string \<Rightarrow> string" where
  "cutAcknowledgments cleaned =
     (let acknowledgmentsIndex = js_search flagI acknowledgmentsRegex cleaned
      in if acknowledgmentsIndex > 0 \<and> 10 * acknowledgmentsIndex < 9 * int (length cleaned)
         then trim (substringTo acknowledgmentsIndex cleaned) else cleaned)"

definition cutReferences :: "string \<Rightarrow> string" where
  "cutReferences cleaned =
     (let referencesIndex = js_search flagI referencesRegex cleaned
      in if referencesIndex > 0 \<and> 10 * referencesIndex < 9 * int (length cleaned) then
           (let afterSection = substringFrom referencesIndex cleaned;
                hasNumberedRefs = js_test flagM numberedRefsRegex afterSection
            in if hasNumberedRefs \<or> 5 * length afterSection < 2 * length cleaned
               then trim (substringTo referencesIndex cleaned) else cleaned)
         else cleaned)"

definition cutAuthorContributions :: "string \<Rightarrow> string" where
  "cutAuthorContributions cleaned =
     (let authorIndex = js_search flagI authorRegex cleaned
      in if authorIndex > 0 \<and> 10 * authorIndex < 9 * int (length cleaned)
         then trim (substringTo authorIndex cleaned) else cleaned)"

text \<open>Step 14: \<open>/^(Figure|Fig\.|Table|Tabel|Gambar)\s*\d+[:.].{0,200}$/gmi\<close>\<close>

definition removeCaptions :: "string \<Rightarrow> string" where
  "removeCaptions cleaned =
     js_replaceAllBy flagMI
       (seqs [Bol, Group 1 (anyOf [''Figure'', ''Fig.'', ''Table'', ''Tabel'', ''Gambar'']), Star ws,
              Plus digit, Class [CChar CHR '':'', CChar CHR ''.''], Repeat 0 200 Dot, Eol]) []
       cleaned"

text \<open>The text as it stands before the repeated lines are looked for (steps 1 to 8).\<close>

definition beforeRepeatedLines :: "string \<Rightarrow> string \<Rightarrow> string \<Rightarrow> string" where
  "beforeRepeatedLines text headerPattern footerPattern =
     removeShortLines (normalizeWhitespace (removePageNumbers (removeMetadata
       (removeJournalFooters (removeFooter footerPattern (removeJournalLines
          (removeHeader headerPattern (startAtAbstract text))))))))"

text \<open>The text as it stands before the references section is looked for (steps 1 to 11).\<close>

definition beforeReferences :: "string \<Rightarrow> string \<Rightarrow> string \<Rightarrow> string" where
  "beforeReferences text headerPattern footerPattern =
     cutAcknowledgments (cutConflicts (removeRepeatedLines
       (beforeRepeatedLines text headerPattern footerPattern)))"

text \<open>Steps 13 to 15.\<close>

definition afterReferences :: "string \<Rightarrow> string" where
  "afterReferences cleaned = trim (collapseBlankLines (removeCaptions (cutAuthorContributions cleaned)))"

definition cleanAcademicText :: "string \<Rightarrow> string \<Rightarrow> string \<Rightarrow> string" where
  "cleanAcademicText text headerPattern footerPattern =
     afterReferences (cutReferences (beforeReferences text headerPattern footerPattern))"

section \<open>lib/graph-utils.ts: filterEntity\<close>






section \<open>services/mistral.service.ts: graph extraction\<close>

text \<open>\<open>Array.prototype.slice(start, end)\<close>: a negative index counts from the end.\<close>

definition js_slice :: "'a list \<Rightarrow> int \<Rightarrow> int \<Rightarrow> 'a list" where
  "js_slice xs start end =
     (let n = int (length xs);
          k = (if start < 0 then max (n + start) 0 else min start n);
          final = (if end < 0 then max (n + end) 0 else min end n)
      in take (nat (final - k)) (drop (nat k) xs))"
























section \<open>app/api/extract-graph/route.ts\<close>





section \<open>app/upload/page.tsx: createChunks\<close>

record Chunk =
  chunk_id :: int
  chunk_text :: string
  wordCount :: nat
  charCount :: nat

text \<open>\<open>/Isi:\s*([\s\S]*)/\<close> and \<open>/(?<=[.!?])\s+/\<close>\<close>

definition isiRegex :: regex where
  "isiRegex = seqs [Lit ''Isi:'', Star ws, Group 1 (Star (Class [CSpace, CNotSpace]))]"

definition sentenceBoundary :: regex where
  "sentenceBoundary = seqs [Behind [CChar CHR ''.'', CChar CHR ''!'', CChar CHR ''?''], Plus ws]"

definition chunkContent :: "string \<Rightarrow> string" where
  "chunkContent text =
     (case js_match noFlags isiRegex text of Some st \<Rightarrow> trim (capture st 1) | None \<Rightarrow> text)"

definition splitSentences :: "string \<Rightarrow> string list" where
  "splitSentences text =
     filter (\<lambda>s. length s > 10) (map trim (js_split noFlags sentenceBoundary (chunkContent text)))"

text \<open>The chunk that is pushed for a window of sentences.\<close>

definition makeChunk :: "int \<Rightarrow> string list \<Rightarrow> Chunk" where
  "makeChunk chunkId chunkSentences =
     (let chunkText = js_join '' '' chunkSentences
      in \<lparr>chunk_id = chunkId, chunk_text = chunkText,
          wordCount = length (js_split noFlags (Plus ws) chunkText),
          charCount = length chunkText\<rparr>)"

text \<open>
  The loop \<open>for (let i = 0; i < sentences.length; i += sentencesPerChunk - overlapSentences)\<close>
  with its \<open>break\<close>. It does not end when the step is not positive and the first window
  does not reach the end: that is the value \<open>None\<close>.
\<close>

partial_function (option) chunkLoop ::
  "string list \<Rightarrow> int \<Rightarrow> int \<Rightarrow> int \<Rightarrow> int \<Rightarrow> Chunk list \<Rightarrow> Chunk list option" where
  "chunkLoop sentences sentencesPerChunk overlapSentences i chunkId chunks =
     (if i < int (length sentences) then
        (let chunkSentences = js_slice sentences i (i + sentencesPerChunk);
             chunkText = js_join '' '' chunkSentences;
             pushed = (length (trim chunkText) > 0);
             chunks' = (if pushed then chunks @ [makeChunk chunkId chunkSentences] else chunks);
             chunkId' = (if pushed then chunkId + 1 else chunkId)
         in if i + sentencesPerChunk \<ge> int (length sentences) then Some chunks'
            else chunkLoop sentences sentencesPerChunk overlapSentences
                   (i + (sentencesPerChunk - overlapSentences)) chunkId' chunks')
      else Some chunks)"

declare chunkLoop.simps [code]

definition createChunks :: "string \<Rightarrow> int \<Rightarrow> int \<Rightarrow> Chunk list option" where
  "createChunks text sentencesPerChunk overlapSentences =
     chunkLoop (splitSentences text) sentencesPerChunk overlapSentences 0 1 []"

text \<open>
  For the statement of the overlap: the sentences of the window of chunk \<open>k\<close> (counted from
  0) and the indices it covers.
\<close>

definition window :: "string list \<Rightarrow> int \<Rightarrow> int \<Rightarrow> nat \<Rightarrow> string list" where
  "window sentences sentencesPerChunk overlapSentences k =
     js_slice sentences (int k * (sentencesPerChunk - overlapSentences))
       (int k * (sentencesPerChunk - overlapSentences) + sentencesPerChunk)"

definition windowIndices :: "string list \<Rightarrow> int \<Rightarrow> int \<Rightarrow> nat \<Rightarrow> int set" where
  "windowIndices sentences sentencesPerChunk overlapSentences k =
     {i. int k * (sentencesPerChunk - overlapSentences) \<le> i
         \<and> i < int k * (sentencesPerChunk - overlapSentences) + sentencesPerChunk
         \<and> 0 \<le> i \<and> i < int (length sentences)}"

text \<open>Thirty sentences, each of eleven characters, for a concrete run.\<close>

definition thirtySentences :: string where
  "thirtySentences =
     ''Herb 01 ok. Herb 02 ok. Herb 03 ok. Herb 04 ok. Herb 05 ok. Herb 06 ok. Herb 07 ok. Herb 08 ok. Herb 09 ok. Herb 10 ok. Herb 11 ok. Herb 12 ok. Herb 13 ok. Herb 14 ok. Herb 15 ok. Herb 16 ok. Herb 17 ok. Herb 18 ok. Herb 19 ok. Herb 20 ok. Herb 21 ok. Herb 22 ok. Herb 23 ok. Herb 24 ok. Herb 25 ok. Herb 26 ok. Herb 27 ok. Herb 28 ok. Herb 29 ok. Herb 30 ok.''"

section \<open>Concrete inputs\<close>



text \<open>A document with a line that stands before and after the abstract.\<close>

definition repeatedAcrossAbstract :: string where
  "repeatedAcrossAbstract =
     ''Hello world'' @ [nl] @ ''Abstract'' @ [nl] @ ''Hello world'' @ [nl] @ ''Some more text here.''"



section \<open>Properties of lib/graph-utils.ts\<close>

lemma isSpace_toLowerChar [simp]: "isSpace (toLowerChar c) = isSpace c"
  by (auto simp: isSpace_def toLowerChar_def Let_def)











































text \<open>
  Claim C4. \<open>filterRelationsByEntities\<close> keeps, in order, exactly the relations whose source,
  relation and target are all non-empty and whose normalized source and normalized target
  are both among the normalized names of the valid entities, whatever their types; a
  relation with a missing endpoint is not in the output.
\<close>

theorem filterRelationsByEntities_keeps_iff:
  "filterRelationsByEntities relations validEntities =
     filter (\<lambda>rel. rel_source rel \<noteq> [] \<and> rel_relation rel \<noteq> [] \<and> rel_target rel \<noteq> []
               \<and> normalizeEntityName (rel_source rel) \<in> (\<lambda>e. normalizeEntityName (ent_name e)) ` set validEntities
               \<and> normalizeEntityName (rel_target rel) \<in> (\<lambda>e. normalizeEntityName (ent_name e)) ` set validEntities)
       relations"
  unfolding filterRelationsByEntities_def Let_def
  by (rule filter_cong) auto

section \<open>Properties of the hybrid search\<close>

lemma mapSet_keys: "map fst (mapSet m k v) = (if k \<in> set (map fst m) then map fst m else map fst m @ [k])"
  by (induction m k v rule: mapSet.induct) auto

lemma mapSet_inv:
  "\<forall>(k, v) \<in> set m. f v = k \<Longrightarrow> f v' = k' \<Longrightarrow> \<forall>(k, v) \<in> set (mapSet m k' v'). f v = k"
  by (induction m k' v' rule: mapSet.induct) auto

lemma fold_mapSet_inv:
  "distinct (map fst m) \<Longrightarrow> \<forall>(k, v) \<in> set m. f v = k \<Longrightarrow>
   distinct (map fst (fold (\<lambda>h m. mapSet m (f h) h) hs m))
   \<and> (\<forall>(k, v) \<in> set (fold (\<lambda>h m. mapSet m (f h) h) hs m). f v = k)"
proof (induction hs arbitrary: m)
  case Nil
  then show ?case by simp
next
  case (Cons h hs)
  have 1: "distinct (map fst (mapSet m (f h) h))" using Cons.prems(1) by (simp add: mapSet_keys)
  have 2: "\<forall>(k, v) \<in> set (mapSet m (f h) h). f v = k" using Cons.prems(2) by (rule mapSet_inv) simp
  show ?case using Cons.IH [OF 1 2] by simp
qed

lemma uniqueById_distinct: "distinct (map gsr_id (uniqueById hs))"
proof -
  let ?m = "fold (\<lambda>h m. mapSet m (gsr_id h) h) hs []"
  have "distinct (map fst ?m)" and inv: "\<forall>(k, v) \<in> set ?m. gsr_id v = k"
    using fold_mapSet_inv [of "[]" gsr_id hs] by simp_all
  moreover have "map gsr_id (map snd ?m) = map fst ?m"
    using inv by (auto intro: map_cong)
  ultimately show ?thesis by (simp add: uniqueById_def mapValues_def del: map_map)
qed

text \<open>
  Claim C10. Whenever \<open>hybridSearch\<close> returns, whatever the collaborators did: the four counts
  of the summary are the lengths of \<open>vectorResults\<close>, \<open>graphResults.herbs\<close>,
  \<open>graphResults.compounds\<close> and \<open>graphResults.effects\<close>; \<open>compounds\<close> and \<open>effects\<close> are exactly the
  elements of \<open>allRelations\<close> whose target type is \<open>"COMPOUND"\<close> and \<open>"EFFECT"\<close>; a relation whose
  target type is \<open>"DISEASE"\<close> is in neither of them; and no two herbs have the same id.
\<close>

theorem hybridSearch_summary_and_buckets:
  assumes "hybridSearch c query topK = Inr res"
  shows "totalChunks (summary res) = length (vectorResults res)
       \<and> totalHerbs (summary res) = length (herbs (graphResults res))
       \<and> totalCompounds (summary res) = length (compounds (graphResults res))
       \<and> totalEffects (summary res) = length (effects (graphResults res))
       \<and> compounds (graphResults res)
           = filter (\<lambda>r. er_type (gr_target r) = ''COMPOUND'') (allRelations (graphResults res))
       \<and> effects (graphResults res)
           = filter (\<lambda>r. er_type (gr_target r) = ''EFFECT'') (allRelations (graphResults res))
       \<and> (\<forall>r \<in> set (allRelations (graphResults res)). er_type (gr_target r) = ''DISEASE'' \<longrightarrow>
             r \<notin> set (compounds (graphResults res)) \<and> r \<notin> set (effects (graphResults res)))
       \<and> distinct (map gsr_id (herbs (graphResults res)))"
  using assms unfolding hybridSearch_def Let_def
  by (auto split: sum.splits prod.splits if_splits simp: uniqueById_distinct)


theorem hybridSearch_summary_and_buckets_witness:
  "hybridSearch (stubCollaborators ''DISEASE'') ''what herb for headache'' 5
     = Inr (projr (hybridSearch (stubCollaborators ''DISEASE'') ''what herb for headache'' 5))
   \<and> length (allRelations (graphResults (projr (hybridSearch (stubCollaborators ''DISEASE'') ''what herb for headache'' 5)))) = 2
   \<and> totalHerbs (summary (projr (hybridSearch (stubCollaborators ''DISEASE'') ''what herb for headache'' 5))) = 1
   \<and> totalEffects (summary (projr (hybridSearch (stubCollaborators ''DISEASE'') ''what herb for headache'' 5)))
       = length (effects (graphResults (projr (hybridSearch (stubCollaborators ''DISEASE'') ''what herb for headache'' 5))))
   \<and> distinct (map gsr_id (herbs (graphResults (projr (hybridSearch (stubCollaborators ''DISEASE'') ''what herb for headache'' 5)))))"
proof -
  let ?r = "hybridSearch (stubCollaborators ''DISEASE'') ''what herb for headache'' 5"
  have r: "?r = Inr (projr ?r)" by code_simp
  have n: "length (allRelations (graphResults (projr ?r))) = 2" by code_simp
  have h: "totalHerbs (summary (projr ?r)) = 1" by code_simp
  show ?thesis
    using hybridSearch_summary_and_buckets [OF r] r n h by simp
qed







section \<open>Properties of lib/text-utils.ts\<close>

text \<open>
  Claim C7. \<open>parseJSONResponse\<close> repairs and parses the two examples: a fenced
  \<open>{"a":1,}\<close> gives the object \<open>{a: 1}\<close>, and \<open>{"a": "x", "b": [1,2\<close>, which lacks one \<open>]\<close>
  and one \<open>}\<close>, gives \<open>{a: "x", b: [1, 2]}\<close>.
\<close>

theorem parseJSONResponse_examples:
  "parseJSONResponse (''```json'' @ [nl] @ ''{\"a\":1,}'' @ [nl] @ ''```'')
     = Inr (JObject [(''a'', JNumber 1 0)])
   \<and> parseJSONResponse ''{\"a\": \"x\", \"b\": [1,2''
     = Inr (JObject [(''a'', JString ''x''), (''b'', JArray [JNumber 1 0, JNumber 2 0])])"
  by code_simp




text \<open>
  Claim C9 as stated fails. The line \<open>Hello world\<close> stands twice in the input, once before
  the abstract; step 1 drops what is before the abstract, the line is then no longer
  repeated, and the output still has it.
\<close>

theorem cleanAcademicText_keeps_repeated_line:
  "length (filter (\<lambda>line. line = ''Hello world'') (splitLines repeatedAcrossAbstract)) = 2
   \<and> cleanAcademicText repeatedAcrossAbstract [] []
       = ''Abstract'' @ [nl] @ ''Hello world'' @ [nl] @ ''Some more text here.''
   \<and> ''Hello world'' \<in> set (splitLines (cleanAcademicText repeatedAcrossAbstract [] []))"
  by code_simp

section \<open>Properties of the graph extraction\<close>








section \<open>createChunks: the windows of sentences\<close>

lemma dropWhile_all: "(\<forall>x\<in>set (dropWhile P s). P x) \<longleftrightarrow> (\<forall>x\<in>set s. P x)"
  by (induction s) auto

lemma trim_Nil_iff: "trim s = [] \<longleftrightarrow> (\<forall>c\<in>set s. isSpace c)"
proof -
  have "trim s = [] \<longleftrightarrow> (\<forall>x\<in>set (dropWhile isSpace s). isSpace x)"
    by (simp add: trim_def trimEnd_def trimStart_def dropWhile_eq_Nil_conv)
  thus ?thesis by (simp add: dropWhile_all)
qed

lemma js_join_hd: "xs \<noteq> [] \<Longrightarrow> set (hd xs) \<subseteq> set (js_join sep xs)"
  by (cases xs; cases "tl xs") auto

lemma splitSentences_visible:
  assumes "s \<in> set (splitSentences text)"
  shows "trim s \<noteq> []"
proof -
  from assms obtain u where s: "s = trim u" and len: "10 < length s"
    by (auto simp: splitSentences_def)
  from len have ne: "trim u \<noteq> []" using s by auto
  hence "\<not> (\<forall>c\<in>set u. isSpace c)" by (simp add: trim_Nil_iff)
  then obtain c where c: "c \<in> set u" "\<not> isSpace c" by blast
  have "\<not> (\<forall>x\<in>set (dropWhile isSpace (rev (dropWhile isSpace u))). isSpace x)"
    using c by (simp add: dropWhile_all) blast
  hence "\<not> (\<forall>x\<in>set (trim u). isSpace x)"
    by (simp add: trim_def trimEnd_def trimStart_def)
  thus ?thesis using s by (simp add: trim_Nil_iff)
qed

lemma window_pushed:
  assumes vis: "\<forall>s\<in>set ss. trim s \<noteq> []" and w: "w \<noteq> []" and sub: "set w \<subseteq> set ss"
  shows "0 < length (trim (js_join sep w))"
proof -
  from w sub have "hd w \<in> set ss" by (cases w) auto
  with vis have "trim (hd w) \<noteq> []" by blast
  then obtain c where "c \<in> set (hd w)" "\<not> isSpace c" by (auto simp: trim_Nil_iff)
  with js_join_hd [OF w, of sep] have "\<not> (\<forall>c\<in>set (js_join sep w). isSpace c)" by blast
  thus ?thesis by (simp add: trim_Nil_iff)
qed

lemma js_slice_inside:
  "0 \<le> a \<Longrightarrow> a \<le> b \<Longrightarrow> js_slice xs a b = take (nat (b - a)) (drop (nat a) xs)"
  by (auto simp: js_slice_def Let_def min_def)

lemma js_slice_subset: "set (js_slice xs a b) \<subseteq> set xs"
  by (auto simp: js_slice_def Let_def dest!: in_set_takeD in_set_dropD)

lemma js_slice_nonempty:
  "0 \<le> i \<Longrightarrow> i < int (length xs) \<Longrightarrow> 0 < n \<Longrightarrow> js_slice xs i (i + n) \<noteq> []"
  by (auto simp: js_slice_inside)

text \<open>With a positive step the loop returns, and its chunks are the windows.\<close>

lemma chunkLoop_returns:
  assumes vis: "\<forall>s\<in>set ss. trim s \<noteq> []" and step: "0 < spc - ov" and ov: "0 \<le> ov"
  shows "0 \<le> i \<Longrightarrow> \<exists>m. chunkLoop ss spc ov i cid chunks =
           Some (chunks @ map (\<lambda>j. makeChunk (cid + int j)
                   (js_slice ss (i + int j * (spc - ov)) (i + int j * (spc - ov) + spc))) [0..<m])
         \<and> (\<forall>j. Suc j < m \<longrightarrow> i + int j * (spc - ov) + spc < int (length ss))"
proof (induction "nat (int (length ss) - i)" arbitrary: i cid chunks rule: less_induct)
  case less
  show ?case
  proof (cases "i < int (length ss)")
    case False
    hence "chunkLoop ss spc ov i cid chunks = Some chunks"
      by (subst chunkLoop.simps) simp
    thus ?thesis by (intro exI [of _ 0]) simp
  next
    case True
    from step ov have spc: "0 < spc" by simp
    have ne: "js_slice ss i (i + spc) \<noteq> []"
      using less.prems True spc by (rule js_slice_nonempty)
    have pushed: "0 < length (trim (js_join '' '' (js_slice ss i (i + spc))))"
      using vis ne js_slice_subset by (rule window_pushed)
    show ?thesis
    proof (cases "i + spc \<ge> int (length ss)")
      case True
      have "chunkLoop ss spc ov i cid chunks = Some (chunks @ [makeChunk cid (js_slice ss i (i + spc))])"
        using \<open>i < int (length ss)\<close> True pushed by (subst chunkLoop.simps) (simp add: Let_def)
      thus ?thesis by (intro exI [of _ 1]) simp
    next
      case False
      let ?i = "i + (spc - ov)"
      let ?c0 = "makeChunk cid (js_slice ss i (i + spc))"
      have unf: "chunkLoop ss spc ov i cid chunks = chunkLoop ss spc ov ?i (cid + 1) (chunks @ [?c0])"
        using \<open>i < int (length ss)\<close> False pushed by (subst chunkLoop.simps) (simp add: Let_def)
      have "nat (int (length ss) - ?i) < nat (int (length ss) - i)"
        using step \<open>i < int (length ss)\<close> by linarith
      moreover have "0 \<le> ?i" using less.prems step by simp
      ultimately obtain m where
        m: "chunkLoop ss spc ov ?i (cid + 1) (chunks @ [?c0]) =
              Some ((chunks @ [?c0]) @ map (\<lambda>j. makeChunk (cid + 1 + int j)
                   (js_slice ss (?i + int j * (spc - ov)) (?i + int j * (spc - ov) + spc))) [0..<m])"
        and b: "\<forall>j. Suc j < m \<longrightarrow> ?i + int j * (spc - ov) + spc < int (length ss)"
        using less.hyps [of ?i "cid + 1" "chunks @ [?c0]"] by blast
      let ?f = "\<lambda>j. makeChunk (cid + int j)
                   (js_slice ss (i + int j * (spc - ov)) (i + int j * (spc - ov) + spc))"
      have shift: "map (\<lambda>j. makeChunk (cid + 1 + int j)
                   (js_slice ss (?i + int j * (spc - ov)) (?i + int j * (spc - ov) + spc))) [0..<m]
                 = map (\<lambda>j. ?f (Suc j)) [0..<m]"
        by (rule map_cong) (simp_all add: algebra_simps)
      have "map ?f [0..<Suc m] = ?f 0 # map (\<lambda>j. ?f (Suc j)) [0..<m]"
        by (simp add: map_upt_Suc del: upt_Suc)
      hence res: "chunkLoop ss spc ov i cid chunks = Some (chunks @ map ?f [0..<Suc m])"
        using unf m shift by simp
      have "\<forall>j. Suc j < Suc m \<longrightarrow> i + int j * (spc - ov) + spc < int (length ss)"
      proof (intro allI impI)
        fix j assume j: "Suc j < Suc m"
        show "i + int j * (spc - ov) + spc < int (length ss)"
        proof (cases j)
          case 0 thus ?thesis using False by simp
        next
          case (Suc j')
          with j b have "?i + int j' * (spc - ov) + spc < int (length ss)" by simp
          thus ?thesis using Suc by (simp add: algebra_simps)
        qed
      qed
      with res show ?thesis by blast
    qed
  qed
qed

text \<open>With a step that is not positive the loop goes on for ever once it goes on.\<close>

lemma chunkLoop_diverges:
  assumes "chunkLoop ss spc ov i cid chunks = Some cs"
  shows "\<not> (spc - ov \<le> 0 \<and> i + spc < int (length ss) \<and> i < int (length ss))"
proof (rule chunkLoop.raw_induct
    [where P = "\<lambda>ss spc ov i cid chunks cs.
                  \<not> (spc - ov \<le> 0 \<and> i + spc < int (length ss) \<and> i < int (length ss))",
     OF _ assms])
  fix f :: "string list \<Rightarrow> int \<Rightarrow> int \<Rightarrow> int \<Rightarrow> int \<Rightarrow> Chunk list \<Rightarrow> Chunk list option"
  fix ss spc ov i cid chunks cs
  assume IH: "\<And>ss spc ov i cid chunks cs. f ss spc ov i cid chunks = Some cs \<Longrightarrow>
                \<not> (spc - ov \<le> 0 \<and> i + spc < int (length ss) \<and> i < int (length ss))"
  assume body: "(if i < int (length ss)
      then let chunkSentences = js_slice ss i (i + spc);
               chunkText = js_join '' '' chunkSentences;
               pushed = 0 < length (trim chunkText);
               chunks' = if pushed then chunks @ [makeChunk cid chunkSentences] else chunks;
               chunkId' = if pushed then cid + 1 else cid
           in if int (length ss) \<le> i + spc then Some chunks'
              else f ss spc ov (i + (spc - ov)) chunkId' chunks'
      else Some chunks) = Some cs"
  show "\<not> (spc - ov \<le> 0 \<and> i + spc < int (length ss) \<and> i < int (length ss))"
  proof
    assume a: "spc - ov \<le> 0 \<and> i + spc < int (length ss) \<and> i < int (length ss)"
    with body obtain cid' chunks' where "f ss spc ov (i + (spc - ov)) cid' chunks' = Some cs"
      by (simp add: Let_def split: if_splits)
    from IH [OF this] a show False by simp
  qed
qed

lemma window_overlap:
  assumes step: "0 < spc - ov" and ov: "0 \<le> ov"
    and full: "int k * (spc - ov) + spc < int (length ss)"
  shows "length (window ss spc ov k) = nat spc"
    and "drop (nat (spc - ov)) (window ss spc ov k) = take (nat ov) (window ss spc ov (Suc k))"
    and "card (windowIndices ss spc ov k \<inter> windowIndices ss spc ov (Suc k)) = nat ov"
proof -
  let ?a = "int k * (spc - ov)"
  have a: "0 \<le> ?a" using step by simp
  have a': "int (Suc k) * (spc - ov) = ?a + (spc - ov)" by (simp add: algebra_simps)
  have w: "window ss spc ov k = take (nat spc) (drop (nat ?a) ss)"
    using a step ov by (simp add: window_def js_slice_inside)
  have w': "window ss spc ov (Suc k) = take (nat spc) (drop (nat (?a + (spc - ov))) ss)"
    unfolding window_def a' using a step ov by (simp add: js_slice_inside)
  show "length (window ss spc ov k) = nat spc"
  proof -
    have "nat spc \<le> length ss - nat ?a" using a full by linarith
    thus ?thesis unfolding w by simp
  qed
  have n1: "nat (?a + (spc - ov)) = nat (spc - ov) + nat ?a" using a step by linarith
  have n2: "nat spc - nat (spc - ov) = nat ov" using step ov by linarith
  have n3: "min (nat ov) (nat spc) = nat ov" using step ov by linarith
  show "drop (nat (spc - ov)) (window ss spc ov k) = take (nat ov) (window ss spc ov (Suc k))"
    unfolding w w' by (simp add: drop_take n1 n2 n3)
  have "windowIndices ss spc ov k \<inter> windowIndices ss spc ov (Suc k) = {?a + (spc - ov)..<?a + spc}"
  proof -
    define b where "b = int k * (spc - ov)"
    have "0 \<le> b" using a by (simp add: b_def)
    hence "{i. b \<le> i \<and> i < b + spc \<and> 0 \<le> i \<and> i < int (length ss)}
           \<inter> {i. b + (spc - ov) \<le> i \<and> i < b + (spc - ov) + spc \<and> 0 \<le> i \<and> i < int (length ss)}
           = {b + (spc - ov)..<b + spc}"
      using step ov full by (auto simp: b_def [symmetric])
    thus ?thesis unfolding windowIndices_def a' b_def .
  qed
  thus "card (windowIndices ss spc ov k \<inter> windowIndices ss spc ov (Suc k)) = nat ov"
    by simp
qed

lemma createChunks_positive_step:
  assumes step: "0 < spc - ov" and ov: "0 \<le> ov"
  shows "\<exists>m. createChunks text spc ov =
            Some (map (\<lambda>j. makeChunk (int j + 1) (window (splitSentences text) spc ov j)) [0..<m])
          \<and> (\<forall>j. Suc j < m \<longrightarrow> int j * (spc - ov) + spc < int (length (splitSentences text)))"
proof -
  have vis: "\<forall>s\<in>set (splitSentences text). trim s \<noteq> []"
    using splitSentences_visible by blast
  from chunkLoop_returns [OF vis step ov, of 0 1 "[]"]
  show ?thesis by (simp add: createChunks_def window_def add.commute)
qed

lemma createChunks_other_step:
  assumes step: "\<not> 0 < spc - ov" and res: "createChunks text spc ov = Some cs"
  shows "cs = [] \<or> cs = [makeChunk 1 (window (splitSentences text) spc ov 0)]"
proof -
  let ?ss = "splitSentences text"
  from res have loop: "chunkLoop ?ss spc ov 0 1 [] = Some cs" by (simp add: createChunks_def)
  show ?thesis
  proof (cases "0 < int (length ?ss)")
    case False
    with loop show ?thesis by (subst (asm) chunkLoop.simps) simp
  next
    case True
    from chunkLoop_diverges [OF loop] step True have "int (length ?ss) \<le> spc" by simp
    with loop True show ?thesis
      by (subst (asm) chunkLoop.simps) (auto simp: Let_def window_def split: if_splits)
  qed
qed

lemma createChunks_thirty:
  assumes len: "length (splitSentences text) = 30"
  shows "createChunks text 12 3 =
           Some [makeChunk 1 (take 12 (splitSentences text)),
                 makeChunk 2 (take 12 (drop 9 (splitSentences text))),
                 makeChunk 3 (drop 18 (splitSentences text))]"
proof -
  let ?ss = "splitSentences text"
  have vis: "\<forall>s\<in>set ?ss. trim s \<noteq> []" using splitSentences_visible by blast
  have s1: "js_slice ?ss 0 12 = take 12 ?ss" by (simp add: js_slice_inside)
  have s2: "js_slice ?ss 9 21 = take 12 (drop 9 ?ss)" by (simp add: js_slice_inside)
  have s3: "js_slice ?ss 18 30 = drop 18 ?ss" using len by (simp add: js_slice_inside)
  have ne: "?ss \<noteq> []" using len by (cases ?ss) simp_all
  have p1: "trim (js_join '' '' (take 12 ?ss)) \<noteq> []"
    using window_pushed [OF vis _ set_take_subset, of 12 "'' ''"] ne by simp
  have p2: "trim (js_join '' '' (take 12 (drop 9 ?ss))) \<noteq> []"
  proof -
    have "take 12 (drop 9 ?ss) \<noteq> []" using len by simp
    moreover have "set (take 12 (drop 9 ?ss)) \<subseteq> set ?ss"
      by (meson set_take_subset set_drop_subset subset_trans)
    ultimately show ?thesis using window_pushed [OF vis, of "take 12 (drop 9 ?ss)" "'' ''"] by simp
  qed
  have p3: "trim (js_join '' '' (drop 18 ?ss)) \<noteq> []"
    using window_pushed [OF vis _ set_drop_subset, of 18 "'' ''"] len by simp
  have "chunkLoop ?ss 12 3 0 1 [] = chunkLoop ?ss 12 3 9 2 [makeChunk 1 (take 12 ?ss)]"
    by (subst chunkLoop.simps) (simp add: Let_def len s1 p1)
  also have "\<dots> = chunkLoop ?ss 12 3 18 3
                    [makeChunk 1 (take 12 ?ss), makeChunk 2 (take 12 (drop 9 ?ss))]"
    by (subst chunkLoop.simps) (simp add: Let_def len s2 p2)
  also have "\<dots> = Some [makeChunk 1 (take 12 ?ss), makeChunk 2 (take 12 (drop 9 ?ss)),
                         makeChunk 3 (drop 18 ?ss)]"
    by (subst chunkLoop.simps) (simp add: Let_def len s3 p3)
  finally show ?thesis by (simp add: createChunks_def)
qed

text \<open>
  C6. A text of 30 sentences with 12 sentences per chunk and an overlap of 3 gives three
  chunks, numbered 1, 2 and 3, of the sentences 1 to 12, 10 to 21 and 19 to 30. In general,
  when the overlap is not negative and the function returns, chunk \<open>k\<close> (from 0) has the
  number \<open>k + 1\<close> and holds the window of sentences that starts at
  \<open>k * (sentencesPerChunk - overlapSentences)\<close>; a chunk that has a successor holds
  \<open>sentencesPerChunk\<close> sentences, its last \<open>overlapSentences\<close> sentences are the first of
  the next chunk, and the two windows have exactly \<open>overlapSentences\<close> positions in common.
\<close>

theorem createChunks_windows:
  "(length (splitSentences text) = 30 \<longrightarrow>
      createChunks text 12 3 =
        Some [makeChunk 1 (take 12 (splitSentences text)),
              makeChunk 2 (take 12 (drop 9 (splitSentences text))),
              makeChunk 3 (drop 18 (splitSentences text))])
   \<and> (createChunks text' spc ov = Some cs \<and> 0 \<le> ov \<longrightarrow>
        (\<forall>k<length cs. cs ! k = makeChunk (int k + 1) (window (splitSentences text') spc ov k))
      \<and> (\<forall>k. Suc k < length cs \<longrightarrow>
            length (window (splitSentences text') spc ov k) = nat spc
          \<and> drop (nat (spc - ov)) (window (splitSentences text') spc ov k)
              = take (nat ov) (window (splitSentences text') spc ov (Suc k))
          \<and> card (windowIndices (splitSentences text') spc ov k
                  \<inter> windowIndices (splitSentences text') spc ov (Suc k)) = nat ov))"
proof (intro conjI impI)
  assume "length (splitSentences text) = 30"
  thus "createChunks text 12 3 =
        Some [makeChunk 1 (take 12 (splitSentences text)),
              makeChunk 2 (take 12 (drop 9 (splitSentences text))),
              makeChunk 3 (drop 18 (splitSentences text))]"
    by (rule createChunks_thirty)
next
  let ?ss = "splitSentences text'"
  assume a: "createChunks text' spc ov = Some cs \<and> 0 \<le> ov"
  hence res: "createChunks text' spc ov = Some cs" and ov: "0 \<le> ov" by simp_all
  show "\<forall>k<length cs. cs ! k = makeChunk (int k + 1) (window ?ss spc ov k)"
  proof (cases "0 < spc - ov")
    case True
    from createChunks_positive_step [OF True ov, of text'] res
    obtain m where "cs = map (\<lambda>j. makeChunk (int j + 1) (window ?ss spc ov j)) [0..<m]"
      by auto
    thus ?thesis by simp
  next
    case False
    from createChunks_other_step [OF False res] show ?thesis by auto
  qed
next
  let ?ss = "splitSentences text'"
  assume a: "createChunks text' spc ov = Some cs \<and> 0 \<le> ov"
  hence res: "createChunks text' spc ov = Some cs" and ov: "0 \<le> ov" by simp_all
  show "\<forall>k. Suc k < length cs \<longrightarrow>
            length (window ?ss spc ov k) = nat spc
          \<and> drop (nat (spc - ov)) (window ?ss spc ov k) = take (nat ov) (window ?ss spc ov (Suc k))
          \<and> card (windowIndices ?ss spc ov k \<inter> windowIndices ?ss spc ov (Suc k)) = nat ov"
  proof (cases "0 < spc - ov")
    case True
    from createChunks_positive_step [OF True ov, of text'] res
    obtain m where cs: "cs = map (\<lambda>j. makeChunk (int j + 1) (window ?ss spc ov j)) [0..<m]"
      and full: "\<forall>j. Suc j < m \<longrightarrow> int j * (spc - ov) + spc < int (length ?ss)"
      by auto
    show ?thesis
    proof (intro allI impI)
      fix k assume "Suc k < length cs"
      with cs full have f: "int k * (spc - ov) + spc < int (length ?ss)" by simp
      from window_overlap [OF True ov f]
      show "length (window ?ss spc ov k) = nat spc
          \<and> drop (nat (spc - ov)) (window ?ss spc ov k) = take (nat ov) (window ?ss spc ov (Suc k))
          \<and> card (windowIndices ?ss spc ov k \<inter> windowIndices ?ss spc ov (Suc k)) = nat ov"
        by simp
    qed
  next
    case False
    from createChunks_other_step [OF False res] show ?thesis by auto
  qed
qed

theorem createChunks_windows_witness:
  "length (splitSentences thirtySentences) = 30
   \<and> createChunks thirtySentences 12 3 =
       Some [\<lparr>chunk_id = 1,
           chunk_text = ''Herb 01 ok. Herb 02 ok. Herb 03 ok. Herb 04 ok. Herb 05 ok. Herb 06 ok. Herb 07 ok. Herb 08 ok. Herb 09 ok. Herb 10 ok. Herb 11 ok. Herb 12 ok.'',
           wordCount = 36, charCount = 143\<rparr>,
         \<lparr>chunk_id = 2,
           chunk_text = ''Herb 10 ok. Herb 11 ok. Herb 12 ok. Herb 13 ok. Herb 14 ok. Herb 15 ok. Herb 16 ok. Herb 17 ok. Herb 18 ok. Herb 19 ok. Herb 20 ok. Herb 21 ok.'',
           wordCount = 36, charCount = 143\<rparr>,
         \<lparr>chunk_id = 3,
           chunk_text = ''Herb 19 ok. Herb 20 ok. Herb 21 ok. Herb 22 ok. Herb 23 ok. Herb 24 ok. Herb 25 ok. Herb 26 ok. Herb 27 ok. Herb 28 ok. Herb 29 ok. Herb 30 ok.'',
           wordCount = 36, charCount = 143\<rparr>]
   \<and> length (window (splitSentences thirtySentences) 12 3 0) = 12
   \<and> drop 9 (window (splitSentences thirtySentences) 12 3 0)
       = take 3 (window (splitSentences thirtySentences) 12 3 1)
   \<and> card (windowIndices (splitSentences thirtySentences) 12 3 0
           \<inter> windowIndices (splitSentences thirtySentences) 12 3 1) = 3"
proof -
  let ?ss = "[''Herb 01 ok.'',
        ''Herb 02 ok.'',
        ''Herb 03 ok.'',
        ''Herb 04 ok.'',
        ''Herb 05 ok.'',
        ''Herb 06 ok.'',
        ''Herb 07 ok.'',
        ''Herb 08 ok.'',
        ''Herb 09 ok.'',
        ''Herb 10 ok.'',
        ''Herb 11 ok.'',
        ''Herb 12 ok.'',
        ''Herb 13 ok.'',
        ''Herb 14 ok.'',
        ''Herb 15 ok.'',
        ''Herb 16 ok.'',
        ''Herb 17 ok.'',
        ''Herb 18 ok.'',
        ''Herb 19 ok.'',
        ''Herb 20 ok.'',
        ''Herb 21 ok.'',
        ''Herb 22 ok.'',
        ''Herb 23 ok.'',
        ''Herb 24 ok.'',
        ''Herb 25 ok.'',
        ''Herb 26 ok.'',
        ''Herb 27 ok.'',
        ''Herb 28 ok.'',
        ''Herb 29 ok.'',
        ''Herb 30 ok.'']"
  let ?cs = "[\<lparr>chunk_id = 1,
           chunk_text = ''Herb 01 ok. Herb 02 ok. Herb 03 ok. Herb 04 ok. Herb 05 ok. Herb 06 ok. Herb 07 ok. Herb 08 ok. Herb 09 ok. Herb 10 ok. Herb 11 ok. Herb 12 ok.'',
           wordCount = 36, charCount = 143\<rparr>,
         \<lparr>chunk_id = 2,
           chunk_text = ''Herb 10 ok. Herb 11 ok. Herb 12 ok. Herb 13 ok. Herb 14 ok. Herb 15 ok. Herb 16 ok. Herb 17 ok. Herb 18 ok. Herb 19 ok. Herb 20 ok. Herb 21 ok.'',
           wordCount = 36, charCount = 143\<rparr>,
         \<lparr>chunk_id = 3,
           chunk_text = ''Herb 19 ok. Herb 20 ok. Herb 21 ok. Herb 22 ok. Herb 23 ok. Herb 24 ok. Herb 25 ok. Herb 26 ok. Herb 27 ok. Herb 28 ok. Herb 29 ok. Herb 30 ok.'',
           wordCount = 36, charCount = 143\<rparr>]"
  have s: "splitSentences thirtySentences = ?ss"
    by code_simp
  have len: "length (splitSentences thirtySentences) = 30"
    unfolding s by simp
  have m1: "makeChunk 1 (take 12 ?ss) = ?cs ! 0" by code_simp
  have m2: "makeChunk 2 (take 12 (drop 9 ?ss)) = ?cs ! 1" by code_simp
  have m3: "makeChunk 3 (drop 18 ?ss) = ?cs ! 2" by code_simp
  note t = createChunks_windows [of thirtySentences thirtySentences 12 3 ?cs]
  from t len have c: "createChunks thirtySentences 12 3 = Some ?cs"
    unfolding s m1 m2 m3 by simp
  with t have "\<forall>k. Suc k < length ?cs \<longrightarrow>
            length (window (splitSentences thirtySentences) 12 3 k) = nat 12
          \<and> drop (nat (12 - 3)) (window (splitSentences thirtySentences) 12 3 k)
              = take (nat 3) (window (splitSentences thirtySentences) 12 3 (Suc k))
          \<and> card (windowIndices (splitSentences thirtySentences) 12 3 k
                  \<inter> windowIndices (splitSentences thirtySentences) 12 3 (Suc k)) = nat 3"
    by simp
  from this [rule_format, of 0] len c show ?thesis by simp
qed


end
